theory Spec2Isabelle
  imports Complex_Main "HOL-Library.Signed_Division"
begin

section \<open>The KCF/DSST tracker of kcftracker.cpp\<close>

text \<open>
  The development follows \<^verbatim>\<open>src/src/kcftracker.cpp\<close>. A C++ \<^verbatim>\<open>int\<close> is an unbounded
  integer. A C++ \<^verbatim>\<open>float\<close> or \<^verbatim>\<open>double\<close> is a real number. The rounding to single
  precision is followed where a result depends on it: in all of \<^verbatim>\<open>subPixelPeak\<close>, in the
  entries stored in the cosine windows, in the exponential of the Gaussian kernel, and
  in the conversion of the box that \<^verbatim>\<open>update\<close> returns. All other float arithmetic is
  exact. There are no infinities and no NaN: where the program would divide by zero or
  take the logarithm of zero the model stops with the outcome \<open>NonFiniteFloat\<close> instead
  of computing with HOL's \<open>x / 0 = 0\<close>, and a rounded value of magnitude \<open>2 ^ 128\<close> or
  more stands for a number that a \<^verbatim>\<open>float\<close> cannot hold, about which nothing is stated.
  The literal \<^verbatim>\<open>3.14159265358979323846\<close> of the window builders is read as \<open>pi\<close>.

  The header \<^verbatim>\<open>kcftracker.hpp\<close> is not among the sources; the members' types are read off
  their uses (\<^verbatim>\<open>(float) base_width\<close>, \<^verbatim>\<open>new float[n_scales]\<close>), the type of the box
  \<^verbatim>\<open>_roi\<close> is taken from the spec. Members whose C++ name starts with an underscore
  carry the prefix \<open>kcf\<close> or lose the underscore.
\<close>

subsection \<open>Data\<close>

text \<open>\<^verbatim>\<open>cv::Rect\<close>, \<^verbatim>\<open>cv::Size\<close> and \<^verbatim>\<open>cv::Point2f\<close>.\<close>

record Rect =
  rect_x :: int
  rect_y :: int
  rect_width :: int
  rect_height :: int

record Size =
  size_width :: int
  size_height :: int

text \<open>
  Modelled from the spec: the member \<^verbatim>\<open>_roi\<close> is declared in the header, which is missing
  from the sources. The spec's data model has the bounding box with "x, y, width, height
  (float)", and the code halves its fields with \<^verbatim>\<open>/ 2.0f\<close> and assigns floats to them:
  the box is a \<^verbatim>\<open>cv::Rect_<float>\<close>.
\<close>

record Rect2f =
  box_x :: real
  box_y :: real
  box_width :: real
  box_height :: real

record Point2f =
  pt_x :: real
  pt_y :: real

text \<open>
  A single-channel \<^verbatim>\<open>cv::Mat\<close> of floats: its dimensions and its elements in row-major
  order. The default-constructed (empty) matrix has no rows, no columns and no data.
\<close>

record Mat =
  mrows :: nat
  mcols :: nat
  mdata :: "real list"

text \<open>
  How a call ends when it does not return normally. \<open>AssertionFailed\<close> is a failed
  \<^verbatim>\<open>assert\<close>; \<open>IndexOutOfRange\<close> and \<open>UninitialisedRead\<close> are reads that C++ leaves
  undefined (past an array or matrix, of a local that was never assigned);
  \<open>DivisionByZero\<close> is an integer division by zero; \<open>NonFiniteFloat\<close> is a float
  division by zero or a logarithm or root outside its domain.
\<close>

datatype error =
  AssertionFailed | IndexOutOfRange | UninitialisedRead | DivisionByZero | NonFiniteFloat

text \<open>The members of \<^verbatim>\<open>KCFTracker\<close> that hold numbers and geometry.\<close>

record tracker =
  lambda :: real
  padding :: real
  output_sigma_factor :: real
  interp_factor :: real
  sigma :: real
  cell_size :: int
  cell_sizeQ :: int
  hogfeatures :: bool
  labfeatures :: bool
  template_size :: int
  scale_padding :: real
  scale_step :: real
  scale_sigma_factor :: real
  n_scales :: nat
  scale_lr :: real
  scale_max_area :: int
  currentScaleFactor :: real
  scale_lambda :: real
  kcf_roi :: Rect2f
  tmpl_sz :: Size
  kcf_scale :: real
  size_patch0 :: nat
  size_patch1 :: nat
  size_patch2 :: nat
  base_width :: int
  base_height :: int
  scaleFactors :: "real list"
  scale_model_width :: int
  scale_model_height :: int
  min_scale_factor :: real
  max_scale_factor :: real

subsection \<open>Conversions and rounding\<close>

text \<open>The conversion of a float to \<^verbatim>\<open>int\<close> drops the fraction (rounds towards zero).\<close>

definition f2i :: "real \<Rightarrow> int" where
  "f2i v = (if 0 \<le> v then \<lfloor>v\<rfloor> else \<lceil>v\<rceil>)"

text \<open>
  Rounding to the nearest integer, a half to the even neighbour: the rounding of the
  floating-point unit, and OpenCV's \<^verbatim>\<open>cvRound\<close>, which is \<^verbatim>\<open>saturate_cast<int>\<close> of a float
  (library code).
\<close>

definition round_even :: "real \<Rightarrow> int" where
  "round_even v =
    (let f = \<lfloor>v\<rfloor>; d = v - of_int f
     in if d < 1 / 2 then f else if 1 / 2 < d then f + 1 else if even f then f else f + 1)"

text \<open>
  Rounding to a binary floating-point format with \<open>p\<close> significant bits and least
  exponent \<open>emin\<close>: a number of magnitude in \<open>[2 ^ e, 2 ^ (e + 1))\<close> is rounded to the
  nearest multiple of \<open>2 ^ (e - p + 1)\<close>, a half to the even multiple; below \<open>2 ^ emin\<close>
  the multiples of \<open>2 ^ (emin - p + 1)\<close> are used (gradual underflow). The exponent is
  not bounded from above. \<open>rnd32\<close> is the rounding to \<^verbatim>\<open>float\<close>, \<open>rnd64\<close> the one to
  \<^verbatim>\<open>double\<close>.
\<close>

definition rnd :: "nat \<Rightarrow> int \<Rightarrow> real \<Rightarrow> real" where
  "rnd p emin v =
    (if v = 0 then 0
     else (let e = max \<lfloor>log 2 \<bar>v\<bar>\<rfloor> emin;
               u = 2 powi (e - int p + 1)
           in of_int (round_even (v / u)) * u))"

definition rnd32 :: "real \<Rightarrow> real" where
  "rnd32 = rnd 24 (- 126)"

definition rnd64 :: "real \<Rightarrow> real" where
  "rnd64 = rnd 53 (- 1022)"

text \<open>
  A magnitude that a \<^verbatim>\<open>float\<close> can hold (after rounding, anything below \<open>2 ^ 128\<close>), and
  the finite \<^verbatim>\<open>float\<close> values: the numbers that rounding leaves as they are.
\<close>

definition finite32 :: "real \<Rightarrow> bool" where
  "finite32 v \<longleftrightarrow> \<bar>v\<bar> < 2 ^ 128"

definition float32 :: "real \<Rightarrow> bool" where
  "float32 v \<longleftrightarrow> rnd32 v = v \<and> finite32 v"

text \<open>
  The two conversions between \<^verbatim>\<open>cv::Rect\<close> and \<^verbatim>\<open>cv::Rect_<float>\<close> (library code): to
  float field by field, and back with \<^verbatim>\<open>saturate_cast<int>\<close> on each field.
\<close>

definition to_Rect2f :: "Rect \<Rightarrow> Rect2f" where
  "to_Rect2f r = \<lparr>box_x = real_of_int (rect_x r), box_y = real_of_int (rect_y r),
                  box_width = real_of_int (rect_width r),
                  box_height = real_of_int (rect_height r)\<rparr>"

definition to_Rect :: "Rect2f \<Rightarrow> Rect" where
  "to_Rect b = \<lparr>rect_x = round_even (box_x b), rect_y = round_even (box_y b),
                rect_width = round_even (box_width b),
                rect_height = round_even (box_height b)\<rparr>"

subsection \<open>The constructor\<close>

text \<open>
  \<^verbatim>\<open>KCFTracker::KCFTracker(hog, fixed_window, multiscale, lab)\<close>. The first argument \<open>u\<close>
  is the object's memory before the constructor runs: a member the constructor does not
  assign keeps whatever \<open>u\<close> holds.
\<close>

definition KCFTracker :: "tracker \<Rightarrow> bool \<Rightarrow> bool \<Rightarrow> bool \<Rightarrow> bool \<Rightarrow> tracker" where
  "KCFTracker u hog fixed_window multiscale lab =
    (let t1 = u\<lparr>lambda := 0.0001, padding := 2.5, output_sigma_factor := 0.125\<rparr>;
         t2 = (if hog then
                 (let a = t1\<lparr>interp_factor := 0.012, sigma := 0.6, cell_size := 4,
                              hogfeatures := True\<rparr>
                  in if lab then
                       a\<lparr>interp_factor := 0.005, sigma := 0.4, output_sigma_factor := 0.1,
                         labfeatures := True, cell_sizeQ := cell_size a * cell_size a\<rparr>
                     else a\<lparr>labfeatures := False\<rparr>)
               else
                 (let a = t1\<lparr>interp_factor := 0.075, sigma := 0.2, cell_size := 1,
                              hogfeatures := False\<rparr>
                  in if lab then a\<lparr>labfeatures := False\<rparr> else a))
     in if multiscale then
          t2\<lparr>template_size := 96, scale_padding := 1.0, scale_step := 1.05,
             scale_sigma_factor := 0.25, n_scales := 33, scale_lr := 0.025,
             scale_max_area := 512, currentScaleFactor := 1, scale_lambda := 0.01\<rparr>
        else if fixed_window then t2\<lparr>template_size := 96, scale_step := 1\<rparr>
        else t2\<lparr>template_size := 1, scale_step := 1\<rparr>)"

text \<open>An object memory of zeros, for runs that start from a concrete tracker.\<close>

definition zeroed :: tracker where
  "zeroed = \<lparr>lambda = 0, padding = 0, output_sigma_factor = 0, interp_factor = 0, sigma = 0,
     cell_size = 0, cell_sizeQ = 0, hogfeatures = False, labfeatures = False,
     template_size = 0, scale_padding = 0, scale_step = 0, scale_sigma_factor = 0,
     n_scales = 0, scale_lr = 0, scale_max_area = 0, currentScaleFactor = 0,
     scale_lambda = 0,
     kcf_roi = \<lparr>box_x = 0, box_y = 0, box_width = 0, box_height = 0\<rparr>,
     tmpl_sz = \<lparr>size_width = 0, size_height = 0\<rparr>, kcf_scale = 0,
     size_patch0 = 0, size_patch1 = 0, size_patch2 = 0, base_width = 0, base_height = 0,
     scaleFactors = [], scale_model_width = 0, scale_model_height = 0,
     min_scale_factor = 0, max_scale_factor = 0\<rparr>"

subsection \<open>Sub-pixel peak\<close>

text \<open>
  \<^verbatim>\<open>KCFTracker::subPixelPeak(left, center, right)\<close>. The divisor is computed in single
  precision, one rounding for the product and one for each subtraction. In the last
  line \<^verbatim>\<open>right - left\<close> is a single-precision subtraction; the literal \<^verbatim>\<open>0.5\<close> makes the
  product and the quotient double-precision operations (halving a \<^verbatim>\<open>float\<close> is exact in
  double precision, so only the quotient is rounded), and the \<^verbatim>\<open>return\<close> rounds the
  quotient to \<^verbatim>\<open>float\<close>.
\<close>

definition subPixelPeak :: "real \<Rightarrow> real \<Rightarrow> real \<Rightarrow> real" where
  "subPixelPeak left center right =
    (let divisor = rnd32 (rnd32 (rnd32 (2 * center) - right) - left)
     in if divisor = 0 then 0
        else rnd32 (rnd64 (0.5 * rnd32 (right - left) / divisor)))"

text \<open>
  All values that one call of \<^verbatim>\<open>subPixelPeak\<close> computes are within the range of a
  \<^verbatim>\<open>float\<close>: no step overflows.
\<close>

definition peak_finite :: "real \<Rightarrow> real \<Rightarrow> real \<Rightarrow> bool" where
  "peak_finite left center right \<longleftrightarrow>
     finite32 (rnd32 (2 * center)) \<and> finite32 (rnd32 (rnd32 (2 * center) - right))
     \<and> finite32 (rnd32 (rnd32 (rnd32 (2 * center) - right) - left))
     \<and> finite32 (rnd32 (right - left)) \<and> finite32 (subPixelPeak left center right)"

subsection \<open>Cosine windows\<close>

text \<open>
  The entry \<^verbatim>\<open>0.5 * (1 - std::cos(2 * 3.14159265358979323846 * i / (n - 1)))\<close> that all three
  window loops compute, \<open>n\<close> being the window's length (\<^verbatim>\<open>hann1t.cols\<close>, \<^verbatim>\<open>hann2t.rows\<close>,
  \<^verbatim>\<open>hann_s.cols\<close>). The expression is computed in double precision, which is taken as
  exact, and stored in a matrix of type \<^verbatim>\<open>CV_32F\<close>: the stored entry is its rounding to
  single precision. For \<open>n = 1\<close> the program divides zero by zero, which this definition
  does not follow.
\<close>

definition hann_entry :: "nat \<Rightarrow> nat \<Rightarrow> real" where
  "hann_entry n i = rnd32 (0.5 * (1 - cos (2 * pi * real i / (real n - 1))))"

text \<open>The two per-axis windows of \<^verbatim>\<open>createHanningMats\<close>: a row and a column.\<close>

definition hann1t :: "tracker \<Rightarrow> Mat" where
  "hann1t t = \<lparr>mrows = 1, mcols = size_patch1 t,
               mdata = map (hann_entry (size_patch1 t)) [0..<size_patch1 t]\<rparr>"

definition hann2t :: "tracker \<Rightarrow> Mat" where
  "hann2t t = \<lparr>mrows = size_patch0 t, mcols = 1,
               mdata = map (hann_entry (size_patch0 t)) [0..<size_patch0 t]\<rparr>"

text \<open>
  \<^verbatim>\<open>createHanningMats\<close>: the product \<^verbatim>\<open>hann2t * hann1t\<close> of the column and the row, a
  matrix of type \<^verbatim>\<open>CV_32F\<close> again; with HOG features that product, flattened to one row,
  is copied into each of the \<^verbatim>\<open>size_patch[2]\<close> rows of the window.
\<close>

definition hann2d :: "tracker \<Rightarrow> Mat" where
  "hann2d t = \<lparr>mrows = size_patch0 t, mcols = size_patch1 t,
      mdata = concat (map (\<lambda>r. map (\<lambda>c. rnd32 (mdata (hann2t t) ! r * mdata (hann1t t) ! c))
                                   [0..<size_patch1 t]) [0..<size_patch0 t])\<rparr>"

definition createHanningMats :: "tracker \<Rightarrow> Mat" where
  "createHanningMats t =
    (if hogfeatures t then
       \<lparr>mrows = size_patch2 t, mcols = size_patch0 t * size_patch1 t,
        mdata = concat (replicate (size_patch2 t) (mdata (hann2d t)))\<rparr>
     else hann2d t)"

text \<open>\<^verbatim>\<open>createHanningMatsForScale\<close>: one row of \<^verbatim>\<open>n_scales\<close> entries.\<close>

definition createHanningMatsForScale :: "tracker \<Rightarrow> Mat" where
  "createHanningMatsForScale t = \<lparr>mrows = 1, mcols = n_scales t,
      mdata = map (hann_entry (n_scales t)) [0..<n_scales t]\<rparr>"

subsection \<open>Box geometry of the controller\<close>

text \<open>
  \<^verbatim>\<open>update_roi\<close>: the box is resized to the reference size times the current scale
  factor, about its centre.
\<close>

definition update_roi :: "tracker \<Rightarrow> tracker" where
  "update_roi t =
    (let r = kcf_roi t;
         cx = box_x r + box_width r / 2;
         cy = box_y r + box_height r / 2;
         w = real_of_int (base_width t) * currentScaleFactor t;
         h = real_of_int (base_height t) * currentScaleFactor t
     in t\<lparr>kcf_roi := \<lparr>box_x = cx - w / 2, box_y = cy - h / 2,
                       box_width = w, box_height = h\<rparr>\<rparr>)"

text \<open>
  \<^verbatim>\<open>train_scale(image, ini)\<close> changes the box only through its last statement, the
  call of \<^verbatim>\<open>update_roi\<close>; the filter update before it is spectral code.
\<close>

definition train_scale :: "tracker \<Rightarrow> tracker" where
  "train_scale t = update_roi t"

text \<open>
  The four \<^verbatim>\<open>if\<close> statements at the start of \<^verbatim>\<open>update\<close> (lines 219 to 222), in their
  order; \<open>cols\<close> and \<open>rows\<close> are \<^verbatim>\<open>image.cols\<close> and \<^verbatim>\<open>image.rows\<close>.
\<close>

definition clamp_entry :: "Rect2f \<Rightarrow> int \<Rightarrow> int \<Rightarrow> Rect2f" where
  "clamp_entry r cols rows =
    (let r1 = (if box_x r + box_width r \<le> 0 then r\<lparr>box_x := - box_width r + 1\<rparr> else r);
         r2 = (if box_y r1 + box_height r1 \<le> 0 then r1\<lparr>box_y := - box_height r1 + 1\<rparr>
               else r1);
         r3 = (if box_x r2 \<ge> real_of_int (cols - 1) then r2\<lparr>box_x := real_of_int (cols - 2)\<rparr>
               else r2);
         r4 = (if box_y r3 \<ge> real_of_int (rows - 1) then r3\<lparr>box_y := real_of_int (rows - 2)\<rparr>
               else r3)
     in r4)"

text \<open>
  The four \<^verbatim>\<open>if\<close> statements that \<^verbatim>\<open>update\<close> runs after the translation step (lines 236
  to 239) and again after the scale step (lines 251 to 254).
\<close>

definition clamp_frame :: "Rect2f \<Rightarrow> int \<Rightarrow> int \<Rightarrow> Rect2f" where
  "clamp_frame r cols rows =
    (let r1 = (if box_x r \<ge> real_of_int (cols - 1) then r\<lparr>box_x := real_of_int (cols - 1)\<rparr>
               else r);
         r2 = (if box_y r1 \<ge> real_of_int (rows - 1) then r1\<lparr>box_y := real_of_int (rows - 1)\<rparr>
               else r1);
         r3 = (if box_x r2 + box_width r2 \<le> 0 then r2\<lparr>box_x := - box_width r2 + 2\<rparr>
               else r2);
         r4 = (if box_y r3 + box_height r3 \<le> 0 then r3\<lparr>box_y := - box_height r3 + 2\<rparr>
               else r3)
     in r4)"

text \<open>
  \<^verbatim>\<open>KCFTracker::update(image)\<close>. The appearance model (template, coefficients, scale
  filter) is built by spectral and feature code that is not under \<^verbatim>\<open>src\<close>; what it
  contributes to the box enters as two parameters: \<open>res\<close>, the offset that
  \<^verbatim>\<open>detect\<close> returned (line 228), and \<open>scale_pi_x\<close>, the column \<^verbatim>\<open>scale_pi.x\<close> that
  \<^verbatim>\<open>detect_scale\<close> returned (line 242). \<^verbatim>\<open>getFeatures\<close> without \<^verbatim>\<open>inithann\<close> and
  \<^verbatim>\<open>train\<close> do not change the box. The result is the new state and the returned box:
  \<^verbatim>\<open>return _roi\<close> converts the float box to the \<^verbatim>\<open>cv::Rect\<close> of the return type.
\<close>

definition update :: "tracker \<Rightarrow> int \<Rightarrow> int \<Rightarrow> Point2f \<Rightarrow> nat \<Rightarrow> error + (tracker \<times> Rect)" where
  "update t cols rows res scale_pi_x =
    (let r0 = clamp_entry (kcf_roi t) cols rows;
         cx = box_x r0 + box_width r0 / 2;
         cy = box_y r0 + box_height r0 / 2;
         r1 = r0\<lparr>box_x := cx - box_width r0 / 2
                    + pt_x res * real_of_int (cell_size t) * kcf_scale t * currentScaleFactor t\<rparr>;
         r2 = r1\<lparr>box_y := cy - box_height r1 / 2
                    + pt_y res * real_of_int (cell_size t) * kcf_scale t * currentScaleFactor t\<rparr>;
         r3 = clamp_frame r2 cols rows
     in if \<not> scale_pi_x < length (scaleFactors t) then Inl IndexOutOfRange
        else
          (let s1 = currentScaleFactor t * scaleFactors t ! scale_pi_x;
               s2 = (if s1 < min_scale_factor t then min_scale_factor t else s1);
               t1 = train_scale (t\<lparr>kcf_roi := r3, currentScaleFactor := s2\<rparr>);
               r4 = clamp_frame (kcf_roi t1) cols rows;
               t2 = t1\<lparr>kcf_roi := r4\<rparr>
           in if \<not> (box_width r4 \<ge> 0 \<and> box_height r4 \<ge> 0) then Inl AssertionFailed
              else Inr (t2, to_Rect r4)))"

subsection \<open>Initialisation\<close>

text \<open>
  The first block of \<^verbatim>\<open>getFeatures\<close>, run when \<^verbatim>\<open>inithann\<close> is set (lines 407 to 446): it
  fixes \<^verbatim>\<open>_scale\<close> and \<^verbatim>\<open>_tmpl_sz\<close> from the padded box. \<^verbatim>\<open>padded_w / _scale\<close> is a float
  division, \<^verbatim>\<open>_tmpl_sz.width / (2 * cell_size)\<close> and \<^verbatim>\<open>_tmpl_sz.width / 2\<close> are integer
  divisions (rounding towards zero, \<open>sdiv\<close>).
\<close>

definition round_tmpl_sz :: "tracker \<Rightarrow> int \<Rightarrow> int \<Rightarrow> error + tracker" where
  "round_tmpl_sz t w h =
    (if hogfeatures t then
       (if 2 * cell_size t = 0 then Inl DivisionByZero
        else Inr (t\<lparr>tmpl_sz :=
               \<lparr>size_width = (w sdiv (2 * cell_size t)) * 2 * cell_size t + cell_size t * 2,
                size_height = (h sdiv (2 * cell_size t)) * 2 * cell_size t + cell_size t * 2\<rparr>\<rparr>))
     else Inr (t\<lparr>tmpl_sz := \<lparr>size_width = (w sdiv 2) * 2, size_height = (h sdiv 2) * 2\<rparr>\<rparr>))"

definition getFeatures_inithann :: "tracker \<Rightarrow> error + tracker" where
  "getFeatures_inithann t =
    (let padded_w = f2i (box_width (kcf_roi t) * padding t);
         padded_h = f2i (box_height (kcf_roi t) * padding t)
     in if template_size t > 1 then
          (let sc = (if padded_w \<ge> padded_h
                     then real_of_int padded_w / real_of_int (template_size t)
                     else real_of_int padded_h / real_of_int (template_size t))
           in if sc = 0 then Inl NonFiniteFloat
              else round_tmpl_sz (t\<lparr>kcf_scale := sc\<rparr>)
                     (f2i (real_of_int padded_w / sc)) (f2i (real_of_int padded_h / sc)))
        else round_tmpl_sz (t\<lparr>kcf_scale := 1\<rparr>) padded_w padded_h)"

text \<open>
  \<^verbatim>\<open>dsstInit(roi, image)\<close>: the reference size, the table of scale factors, the size of
  the scale model, and the bounds of the scale factor. \<^verbatim>\<open>std::pow(scale_step, e)\<close> is
  always called with an integer-valued \<open>e\<close> and is the integer power \<open>powi\<close>;
  \<^verbatim>\<open>std::log\<close> is \<open>ln\<close>. The guard lists the inputs on which the program divides by
  zero or takes the logarithm or the root of a non-positive number.
\<close>

definition dsstInit :: "tracker \<Rightarrow> Rect \<Rightarrow> int \<Rightarrow> int \<Rightarrow> error + tracker" where
  "dsstInit t roi cols rows =
    (let bw = rect_width roi;
         bh = rect_height roi;
         ceilS = \<lceil>real (n_scales t) / 2\<rceil>;
         factors = map (\<lambda>i. scale_step t powi (ceilS - int i - 1)) [0..<n_scales t];
         scale_model_factor =
           (if bw * bh > scale_max_area t
            then sqrt (real_of_int (scale_max_area t) / real_of_int (bw * bh)) else 1);
         arg_min = max (5 / real_of_int bw) (5 / real_of_int bh) * (1 + scale_padding t);
         arg_max = min (real_of_int rows / real_of_int bh) (real_of_int cols / real_of_int bw)
     in if bw = 0 \<or> bh = 0 \<or> arg_min \<le> 0 \<or> arg_max \<le> 0 \<or> scale_step t = 0
           \<or> (bw * bh > scale_max_area t \<and> scale_max_area t < 0)
        then Inl NonFiniteFloat
        else Inr (train_scale
          (t\<lparr>base_width := bw, base_height := bh, scaleFactors := factors,
             scale_model_width := f2i (real_of_int bw * scale_model_factor),
             scale_model_height := f2i (real_of_int bh * scale_model_factor),
             min_scale_factor := scale_step t powi \<lceil>ln arg_min / 0.0086\<rceil>,
             max_scale_factor := scale_step t powi \<lfloor>ln arg_max / 0.0086\<rfloor>\<rparr>)))"

text \<open>
  \<^verbatim>\<open>KCFTracker::init(roi, image)\<close>: the box is stored (converted to the float box), the
  assertion is checked, the
  first feature extraction fixes the template geometry, and \<^verbatim>\<open>dsstInit\<close> sets up
  the scale estimation. The regression target, the coefficients and the first training
  pass (lines 193, 194 and 199) are spectral code and do not touch the members modelled
  here.
\<close>

definition init :: "tracker \<Rightarrow> Rect \<Rightarrow> int \<Rightarrow> int \<Rightarrow> error + tracker" where
  "init t roi cols rows =
    (let t0 = t\<lparr>kcf_roi := to_Rect2f roi\<rparr>
     in if \<not> (rect_width roi \<ge> 0 \<and> rect_height roi \<ge> 0) then Inl AssertionFailed
        else (case getFeatures_inithann t0 of
                Inl e \<Rightarrow> Inl e
              | Inr t1 \<Rightarrow> dsstInit t1 roi cols rows))"

text \<open>
  OpenCV's \<^verbatim>\<open>operator&=\<close> on rectangles (library code): the intersection, and the
  default rectangle when the intersection is empty.
\<close>

definition rect_intersect :: "Rect \<Rightarrow> Rect \<Rightarrow> Rect" where
  "rect_intersect a b =
    (let x1 = max (rect_x a) (rect_x b);
         y1 = max (rect_y a) (rect_y b);
         w = min (rect_x a + rect_width a) (rect_x b + rect_width b) - x1;
         h = min (rect_y a + rect_height a) (rect_y b + rect_height b) - y1
     in if w \<le> 0 \<or> h \<le> 0
        then \<lparr>rect_x = 0, rect_y = 0, rect_width = 0, rect_height = 0\<rparr>
        else \<lparr>rect_x = x1, rect_y = y1, rect_width = w, rect_height = h\<rparr>)"

text \<open>
  \<^verbatim>\<open>KCFTracker::init(pt1, pt2, image)\<close>: the box spanned by two points, cut to the
  frame, then \<^verbatim>\<open>init(targetRect, image)\<close>. A point is a pair \<open>(x, y)\<close>.
\<close>

definition init_pts :: "tracker \<Rightarrow> int \<times> int \<Rightarrow> int \<times> int \<Rightarrow> int \<Rightarrow> int \<Rightarrow> error + tracker" where
  "init_pts t pt1 pt2 cols rows =
    (let targetRect = \<lparr>rect_x = min (fst pt1) (fst pt2), rect_y = min (snd pt1) (snd pt2),
                        rect_width = \<bar>fst pt2 - fst pt1\<bar>, rect_height = \<bar>snd pt2 - snd pt1\<bar>\<rparr>
     in init t (rect_intersect targetRect
                  \<lparr>rect_x = 0, rect_y = 0, rect_width = cols, rect_height = rows\<rparr>) cols rows)"

text \<open>A box lies within a frame of \<open>cols\<close> columns and \<open>rows\<close> rows.\<close>

definition within_frame :: "Rect2f \<Rightarrow> int \<Rightarrow> int \<Rightarrow> bool" where
  "within_frame r cols rows \<longleftrightarrow>
     0 \<le> box_x r \<and> 0 \<le> box_y r \<and> box_x r + box_width r \<le> real_of_int cols
     \<and> box_y r + box_height r \<le> real_of_int rows"

subsection \<open>Runs of the controller\<close>

text \<open>
  A caller's loop: one \<^verbatim>\<open>update\<close> per frame, all frames of the same size; each frame
  comes with what detection found on it (the offset and the scale column).
\<close>

fun track :: "tracker \<Rightarrow> int \<Rightarrow> int \<Rightarrow> (Point2f \<times> nat) list \<Rightarrow> error + tracker" where
  "track t cols rows [] = Inr t"
| "track t cols rows (f # fs) =
    (case update t cols rows (fst f) (snd f) of
       Inl e \<Rightarrow> Inl e
     | Inr tb \<Rightarrow> track (fst tb) cols rows fs)"

text \<open>\<^verbatim>\<open>KCFTracker(true, true, true, false)\<close>: HOG features, multi-scale.\<close>

definition fresh_tracker :: tracker where
  "fresh_tracker = KCFTracker zeroed True True True False"

text \<open>Detection that finds the target where it was.\<close>

definition no_motion :: Point2f where
  "no_motion = \<lparr>pt_x = 0, pt_y = 0\<rparr>"

text \<open>A box as large as a 200 by 200 frame, and the tracker initialised on it.\<close>

definition full_box :: Rect where
  "full_box = \<lparr>rect_x = 0, rect_y = 0, rect_width = 200, rect_height = 200\<rparr>"

definition full_tracker :: tracker where
  "full_tracker = projr (init fresh_tracker full_box 200 200)"

text \<open>
  A 20 by 20 box whose centre is on the left edge of a 200 by 200 frame, and the
  tracker after initialisation on it and three frames on which scale detection chose the
  last column (the smallest factor).
\<close>

definition edge_box :: Rect where
  "edge_box = \<lparr>rect_x = - 10, rect_y = 90, rect_width = 20, rect_height = 20\<rparr>"

definition edge_tracker :: tracker where
  "edge_tracker = projr (init fresh_tracker edge_box 200 200)"

definition shrunk_tracker :: tracker where
  "shrunk_tracker =
     projr (track edge_tracker 200 200 [(no_motion, 32), (no_motion, 32), (no_motion, 32)])"

text \<open>
  That tracker with the scale factor \<open>s\<close> and the box of side \<open>20 * s\<close> about the same
  centre \<open>(0, 100)\<close>.
\<close>

definition edge_state :: "real \<Rightarrow> tracker" where
  "edge_state s =
     edge_tracker\<lparr>kcf_roi := \<lparr>box_x = - (10 * s), box_y = 100 - 10 * s,
                               box_width = 20 * s, box_height = 20 * s\<rparr>,
                   currentScaleFactor := s\<rparr>"

text \<open>Two boxes that reach over the left edge of a 200 by 200 frame.\<close>

definition off_frame_box :: Rect where
  "off_frame_box = \<lparr>rect_x = - 5, rect_y = 50, rect_width = 40, rect_height = 40\<rparr>"

definition far_off_box :: Rect where
  "far_off_box = \<lparr>rect_x = - 50, rect_y = 50, rect_width = 40, rect_height = 40\<rparr>"

text \<open>
  The postcondition of the last four \<^verbatim>\<open>if\<close> statements of \<^verbatim>\<open>update\<close>, as claimed for
  the returned box.
\<close>

definition final_clamp_post :: "Rect \<Rightarrow> int \<Rightarrow> int \<Rightarrow> bool" where
  "final_clamp_post b cols rows \<longleftrightarrow>
     rect_x b \<le> cols - 1 \<and> rect_y b \<le> rows - 1
     \<and> rect_x b + rect_width b > 0 \<and> rect_y b + rect_height b > 0"

subsection \<open>Windows, as claimed\<close>

text \<open>
  What a cosine window of length at least 2 satisfies: 0 at both ends, and 1 at the
  centre index when the length is odd.
\<close>

definition window_ends_centre :: "real list \<Rightarrow> bool" where
  "window_ends_centre w \<longleftrightarrow>
     w ! 0 = 0 \<and> w ! (length w - 1) = 0
     \<and> (odd (length w) \<longrightarrow> w ! ((length w - 1) div 2) = 1)"

subsection \<open>Detection\<close>

text \<open>
  \<^verbatim>\<open>res.at<float>(r, c)\<close>: the element in row \<open>r\<close> and column \<open>c\<close>; a position outside
  the matrix is a read that C++ leaves undefined.
\<close>

definition in_range :: "Mat \<Rightarrow> int \<times> int \<Rightarrow> bool" where
  "in_range m p \<longleftrightarrow>
     0 \<le> fst p \<and> fst p < int (mrows m) \<and> 0 \<le> snd p \<and> snd p < int (mcols m)"

definition mat_at :: "Mat \<Rightarrow> int \<Rightarrow> int \<Rightarrow> error + real" where
  "mat_at m r c =
    (if 0 \<le> r \<and> r < int (mrows m) \<and> 0 \<le> c \<and> c < int (mcols m)
     then Inr (mdata m ! (nat r * mcols m + nat c))
     else Inl IndexOutOfRange)"

text \<open>
  OpenCV's \<^verbatim>\<open>cv::minMaxLoc(res, NULL, &pv, NULL, &pi)\<close> (library code): the maximum
  \<open>pv\<close> and the position \<open>(pi.x, pi.y)\<close>, column first, of its first occurrence in
  row-major order.
\<close>

definition minMaxLoc :: "Mat \<Rightarrow> real \<times> int \<times> int" where
  "minMaxLoc m =
    (let pv = Max (set (mdata m));
         k = length (takeWhile (\<lambda>v. v \<noteq> pv) (mdata m))
     in (pv, int (k mod mcols m), int (k div mcols m)))"

text \<open>The two reads of one sub-pixel step, the first position before the second.\<close>

definition peak_neighbours :: "Mat \<Rightarrow> int \<times> int \<Rightarrow> int \<times> int \<Rightarrow> error + real \<times> real" where
  "peak_neighbours res p q =
    (case mat_at res (fst p) (snd p) of
       Inl e \<Rightarrow> Inl e
     | Inr l \<Rightarrow> (case mat_at res (fst q) (snd q) of
                   Inl e \<Rightarrow> Inl e
                 | Inr r \<Rightarrow> Inr (l, r)))"

text \<open>
  \<^verbatim>\<open>KCFTracker::detect\<close> from line 295 on. The response \<open>res\<close> of line 293 is the work
  of the spectral code and is the parameter. The result is the offset \<open>p\<close>, the peak
  value, and the positions \<open>(row, column)\<close> that \<^verbatim>\<open>res.at<float>\<close> was called with, in
  order. \<^verbatim>\<open>(res.cols) / 2\<close> is an integer division.
\<close>

definition detect :: "Mat \<Rightarrow> error + Point2f \<times> real \<times> (int \<times> int) list" where
  "detect res =
    (case minMaxLoc res of (pv, pix, piy) \<Rightarrow>
      (case (if pix > 0 \<and> pix < int (mcols res) - 1
             then (case peak_neighbours res (piy, pix - 1) (piy, pix + 1) of
                     Inl e \<Rightarrow> Inl e
                   | Inr lr \<Rightarrow> Inr (real_of_int pix + subPixelPeak (fst lr) pv (snd lr),
                                   [(piy, pix - 1), (piy, pix + 1)]))
             else Inr (real_of_int pix, [])) of
         Inl e \<Rightarrow> Inl e
       | Inr xs \<Rightarrow>
          (case (if piy > 0 \<and> piy < int (mrows res) - 1
                 then (case peak_neighbours res (piy - 1, pix) (piy + 1, pix) of
                         Inl e \<Rightarrow> Inl e
                       | Inr lr \<Rightarrow> Inr (real_of_int piy + subPixelPeak (fst lr) pv (snd lr),
                                       [(piy - 1, pix), (piy + 1, pix)]))
                 else Inr (real_of_int piy, [])) of
             Inl e \<Rightarrow> Inl e
           | Inr ys \<Rightarrow>
               Inr (\<lparr>pt_x = fst xs - real_of_int (int (mcols res) sdiv 2),
                     pt_y = fst ys - real_of_int (int (mrows res) sdiv 2)\<rparr>,
                    pv, snd xs @ snd ys))))"

text \<open>Two responses of 3 by 3: the peak in a corner, and the peak in the middle.\<close>

definition corner_peak :: Mat where
  "corner_peak = \<lparr>mrows = 3, mcols = 3, mdata = [9, 1, 2, 3, 4, 5, 6, 7, 8]\<rparr>"

definition centre_peak :: Mat where
  "centre_peak = \<lparr>mrows = 3, mcols = 3, mdata = [1, 3, 2, 4, 9, 6, 5, 7, 8]\<rparr>"

subsection \<open>Scale samples\<close>

text \<open>
  \<^verbatim>\<open>cv::Mat(cv::Size(cols, rows), CV_32F, float(0))\<close>, the element in row \<open>r\<close> and column
  \<open>c\<close> of a matrix, and \<^verbatim>\<open>v.copyTo(m.col(j))\<close> for a column vector \<open>v\<close>.
\<close>

definition mat_zeros :: "nat \<Rightarrow> nat \<Rightarrow> Mat" where
  "mat_zeros r c = \<lparr>mrows = r, mcols = c, mdata = replicate (r * c) 0\<rparr>"

definition el :: "Mat \<Rightarrow> nat \<Rightarrow> nat \<Rightarrow> real" where
  "el m r c = mdata m ! (r * mcols m + c)"

definition set_col :: "Mat \<Rightarrow> nat \<Rightarrow> real list \<Rightarrow> Mat" where
  "set_col m j v =
     m\<lparr>mdata := map (\<lambda>k. if k mod mcols m = j then v ! (k div mcols m) else mdata m ! k)
                     [0..<mrows m * mcols m]\<rparr>"










subsection \<open>Gaussian correlation\<close>

text \<open>
  \<^verbatim>\<open>x.row(i)\<close>, \<^verbatim>\<open>m.reshape(1, rows)\<close>, the sum of two matrices, and
  \<^verbatim>\<open>cv::sum(x.mul(x))[0]\<close>, the sum of the squares of all elements.
\<close>

definition mat_row :: "Mat \<Rightarrow> nat \<Rightarrow> Mat" where
  "mat_row m i = \<lparr>mrows = 1, mcols = mcols m,
                  mdata = take (mcols m) (drop (i * mcols m) (mdata m))\<rparr>"

definition reshape :: "Mat \<Rightarrow> nat \<Rightarrow> Mat" where
  "reshape m r = \<lparr>mrows = r, mcols = (mrows m * mcols m) div r, mdata = mdata m\<rparr>"

definition mat_add :: "Mat \<Rightarrow> Mat \<Rightarrow> Mat" where
  "mat_add a b = a\<lparr>mdata := map2 (+) (mdata a) (mdata b)\<rparr>"

definition sum_sq :: "Mat \<Rightarrow> real" where
  "sum_sq m = sum_list (map (\<lambda>v. v * v) (mdata m))"

text \<open>
  \<^verbatim>\<open>KCFTracker::gaussianCorrelation(x1, x2)\<close>, in two parts. The parameter \<open>corr\<close>
  stands for the spectral steps, which are not under \<^verbatim>\<open>src\<close>: \<open>corr a b\<close> is the real
  part of \<^verbatim>\<open>rearrange(fftd(mulSpectrums(fftd(a), fftd(b), conjB = true), true))\<close>.

  The first part is the matrix \<^verbatim>\<open>c\<close> (lines 346 to 369). With HOG features the feature
  map has one row per channel, and the loop adds up the correlations of the channels,
  each reshaped to \<^verbatim>\<open>size_patch[0]\<close> rows; with gray features the feature map is the
  image itself.
\<close>

definition correlation_sum :: "(Mat \<Rightarrow> Mat \<Rightarrow> Mat) \<Rightarrow> tracker \<Rightarrow> Mat \<Rightarrow> Mat \<Rightarrow> Mat" where
  "correlation_sum corr t x1 x2 =
    (if hogfeatures t then
       fold (\<lambda>i c. mat_add c (corr (reshape (mat_row x1 i) (size_patch0 t))
                                     (reshape (mat_row x2 i) (size_patch0 t))))
            [0..<size_patch2 t] (mat_zeros (size_patch0 t) (size_patch1 t))
     else corr x1 x2)"

text \<open>
  The second part (lines 370 to 375): the distance \<^verbatim>\<open>d\<close>, cut off at 0, and the kernel
  \<^verbatim>\<open>k\<close>, element by element. \<^verbatim>\<open>cv::exp\<close> (library code) fills a matrix of type \<^verbatim>\<open>CV_32F\<close>:
  an element of \<^verbatim>\<open>k\<close> is the exponential rounded to single precision, which is 0 for
  an exponential below \<open>2 ^ - 150\<close>.
\<close>

definition gaussianCorrelation :: "(Mat \<Rightarrow> Mat \<Rightarrow> Mat) \<Rightarrow> tracker \<Rightarrow> Mat \<Rightarrow> Mat \<Rightarrow> Mat" where
  "gaussianCorrelation corr t x1 x2 =
    (let c = correlation_sum corr t x1 x2;
         d = c\<lparr>mdata := map (\<lambda>v. max (((sum_sq x1 + sum_sq x2) - 2 * v)
                                        / real (size_patch0 t * size_patch1 t * size_patch2 t)) 0)
                             (mdata c)\<rparr>;
         k = d\<lparr>mdata := map (\<lambda>v. rnd32 (exp (- v / (sigma t * sigma t)))) (mdata d)\<rparr>
     in k)"

text \<open>
  Modelled from the spec: the spectral utilities (\<^verbatim>\<open>ffttools.hpp\<close>: \<^verbatim>\<open>fftd\<close>,
  \<^verbatim>\<open>rearrange\<close>, \<^verbatim>\<open>real\<close>) are missing from the sources. The spec describes them as
  "each channel's 2-D cross-correlation via a forward transform, spectral multiply with
  conjugation, inverse transform, spectrum re-centering", the re-centering being "a
  quadrant-swap operation", over samples whose "cyclic shifts" form the training set.
  \<open>cross_correlation a b\<close> is the cyclic cross-correlation, its entry at \<open>(dr, dc)\<close>
  being the sum of \<open>a (r + dr, c + dc) * b (r, c)\<close> with indices taken modulo the size;
  \<open>rearrange\<close> swaps the quadrants of half the row and half the column count
  diagonally; \<open>zero_shift\<close> is where the entry of shift \<open>(0, 0)\<close> ends up.
\<close>

text \<open>
  The sums and differences that line 371 forms are within the range of a \<^verbatim>\<open>float\<close>: no
  step before the exponential overflows.
\<close>

definition finite_distances :: "(Mat \<Rightarrow> Mat \<Rightarrow> Mat) \<Rightarrow> tracker \<Rightarrow> Mat \<Rightarrow> Mat \<Rightarrow> bool" where
  "finite_distances corr t x1 x2 \<longleftrightarrow>
     finite32 (sum_sq x1 + sum_sq x2)
     \<and> (\<forall>v \<in> set (mdata (correlation_sum corr t x1 x2)).
           finite32 (sum_sq x1 + sum_sq x2 + 2 * \<bar>v\<bar>))"

definition cross_correlation :: "Mat \<Rightarrow> Mat \<Rightarrow> Mat" where
  "cross_correlation a b =
     \<lparr>mrows = mrows a, mcols = mcols a,
      mdata = map (\<lambda>k. \<Sum>r < mrows a. \<Sum>c < mcols a.
                          el a ((r + k div mcols a) mod mrows a) ((c + k mod mcols a) mod mcols a)
                          * el b r c)
                  [0..<mrows a * mcols a]\<rparr>"

definition swap_half :: "nat \<Rightarrow> nat \<Rightarrow> nat" where
  "swap_half n i = (if i < n div 2 then i + n div 2 else i - n div 2)"

definition rearrange :: "Mat \<Rightarrow> Mat" where
  "rearrange m =
     m\<lparr>mdata := map (\<lambda>k. if k div mcols m < 2 * (mrows m div 2)
                              \<and> k mod mcols m < 2 * (mcols m div 2)
                           then el m (swap_half (mrows m) (k div mcols m))
                                     (swap_half (mcols m) (k mod mcols m))
                           else mdata m ! k)
                     [0..<mrows m * mcols m]\<rparr>"

definition spectral_correlation :: "Mat \<Rightarrow> Mat \<Rightarrow> Mat" where
  "spectral_correlation a b = rearrange (cross_correlation a b)"


text \<open>
  A feature map that fits the tracker's \<^verbatim>\<open>size_patch\<close>: with HOG features one row per
  channel and one column per cell, with gray features the rows and columns of the
  template and a single channel; not empty, and holding all its elements.
\<close>

definition valid_features :: "tracker \<Rightarrow> Mat \<Rightarrow> bool" where
  "valid_features t x \<longleftrightarrow>
     (if hogfeatures t
      then mrows x = size_patch2 t \<and> mcols x = size_patch0 t * size_patch1 t
      else mrows x = size_patch0 t \<and> mcols x = size_patch1 t \<and> size_patch2 t = 1)
     \<and> length (mdata x) = mrows x * mcols x
     \<and> 0 < size_patch0 t * size_patch1 t * size_patch2 t"





text \<open>
  Two gray feature maps of one pixel, far apart, and a tracker with gray features
  (\<^verbatim>\<open>sigma = 0.2\<close>) that fits them.
\<close>

definition bright_map :: Mat where
  "bright_map = \<lparr>mrows = 1, mcols = 1, mdata = [10]\<rparr>"

definition dark_map :: Mat where
  "dark_map = \<lparr>mrows = 1, mcols = 1, mdata = [- 10]\<rparr>"

definition gray_1x1 :: tracker where
  "gray_1x1 = (KCFTracker zeroed False True False False)
                \<lparr>size_patch0 := 1, size_patch1 := 1, size_patch2 := 1\<rparr>"

section \<open>Properties\<close>

subsection \<open>Rounding\<close>

lemma round_even_of_int [simp]: "round_even (of_int k) = k"
  by (simp add: round_even_def)

lemma round_even_cases:
  "round_even v = \<lfloor>v\<rfloor> \<or> round_even v = \<lfloor>v\<rfloor> + 1"
  by (simp add: round_even_def Let_def)

lemma round_even_near:
  "\<bar>v - of_int (round_even v)\<bar> \<le> 1 / 2"
proof -
  define f where "f = \<lfloor>v\<rfloor>"
  have b: "of_int f \<le> v" "v < of_int f + 1" unfolding f_def by linarith+
  have "round_even v = (if v - of_int f < 1 / 2 then f else if 1 / 2 < v - of_int f then f + 1
                        else if even f then f else f + 1)"
    by (simp add: round_even_def Let_def f_def)
  then consider "round_even v = f" "v - of_int f \<le> 1 / 2"
    | "round_even v = f + 1" "1 / 2 \<le> v - of_int f"
    by (auto split: if_splits)
  then show ?thesis
  proof cases
    case 1
    then show ?thesis using b by simp
  next
    case 2
    then show ?thesis using b by simp
  qed
qed

lemma round_even_eqI:
  assumes "of_int k - 1 / 2 < v" "v < of_int k + 1 / 2"
  shows "round_even v = k"
proof -
  have "\<bar>v - of_int (round_even v)\<bar> \<le> 1 / 2" by (rule round_even_near)
  with assms have "\<bar>real_of_int (round_even v) - real_of_int k\<bar> < 1" by linarith
  then have "\<bar>round_even v - k\<bar> < 1" by (metis of_int_abs of_int_diff of_int_less_1_iff)
  then show ?thesis by simp
qed

lemma round_even_half:
  "round_even (of_int k + 1 / 2) = (if even k then k else k + 1)"
proof -
  have "\<lfloor>of_int k + 1 / 2 :: real\<rfloor> = k" by linarith
  then show ?thesis by (simp add: round_even_def Let_def)
qed

lemma round_even_mono:
  assumes "a \<le> b"
  shows "round_even a \<le> round_even b"
proof (rule ccontr)
  assume "\<not> round_even a \<le> round_even b"
  then have lt: "round_even b + 1 \<le> round_even a" by simp
  then have r: "real_of_int (round_even b) + 1 \<le> real_of_int (round_even a)"
    by (metis of_int_1 of_int_add of_int_le_iff)
  have na: "\<bar>a - of_int (round_even a)\<bar> \<le> 1 / 2" by (rule round_even_near)
  have nb: "\<bar>b - of_int (round_even b)\<bar> \<le> 1 / 2" by (rule round_even_near)
  from na nb r assms have ab: "a = b" by linarith
  with lt show False by simp
qed

lemma round_even_minus: "round_even (- v) = - round_even v"
proof (cases "v = of_int \<lfloor>v\<rfloor>")
  case True
  then obtain k where "v = of_int k" by metis
  then show ?thesis by (simp flip: of_int_minus)
next
  case False
  then have lt: "of_int \<lfloor>v\<rfloor> < v" "v < of_int \<lfloor>v\<rfloor> + 1" by linarith+
  then have f: "\<lfloor>- v\<rfloor> = - \<lfloor>v\<rfloor> - 1" by linarith
  show ?thesis
    using lt unfolding round_even_def Let_def f
    by (auto simp add: field_simps)
qed

lemma floor_log2_binade:
  assumes "2 powi e \<le> a" "a < 2 powi (e + 1)"
  shows "\<lfloor>log 2 a\<rfloor> = e"
proof -
  have p: "0 < a" using assms(1) by (smt (verit) zero_less_power_int)
  have "(2 :: real) powr real_of_int e = 2 powi e"
    by (intro powr_real_of_int') simp_all
  moreover have "(2 :: real) powr real_of_int (e + 1) = 2 powi (e + 1)"
    by (intro powr_real_of_int') simp_all
  moreover have "(\<lfloor>log 2 a\<rfloor> = e) =
      (2 powr real_of_int e \<le> a \<and> a < 2 powr real_of_int (e + 1))"
    by (rule floor_log_eq_powr_iff[OF p]) simp
  ultimately show ?thesis
    using assms by simp
qed

lemma rnd_zero [simp]: "rnd p emin 0 = 0"
  by (simp add: rnd_def)

lemma rnd_binade:
  assumes "2 powi e \<le> \<bar>v\<bar>" "\<bar>v\<bar> < 2 powi (e + 1)" "emin \<le> e"
  shows "rnd p emin v = of_int (round_even (v / 2 powi (e - int p + 1))) * 2 powi (e - int p + 1)"
proof -
  have "v \<noteq> 0" using assms(1) by (smt (verit) zero_less_power_int)
  then show ?thesis
    using floor_log2_binade[OF assms(1,2)] assms(3) by (simp add: rnd_def Let_def max_def)
qed

lemma rnd_subnormal:
  assumes "v \<noteq> 0" "\<bar>v\<bar> < 2 powi emin"
  shows "rnd p emin v = of_int (round_even (v / 2 powi (emin - int p + 1))) * 2 powi (emin - int p + 1)"
proof -
  have "log 2 \<bar>v\<bar> < real_of_int emin"
    using assms by (simp add: log_less_iff powr_real_of_int')
  then have "\<lfloor>log 2 \<bar>v\<bar>\<rfloor> \<le> emin" by linarith
  then show ?thesis using assms(1) by (simp add: rnd_def Let_def max_def)
qed

lemma log2_less_powi:
  assumes "0 < a" "a < 2 powi m"
  shows "log 2 a < real_of_int m"
proof -
  have "(2 :: real) powr real_of_int m = 2 powi m"
    by (intro powr_real_of_int') simp_all
  then show ?thesis using assms by (simp add: log_less_iff)
qed

lemma rnd_grid:
  assumes k: "\<bar>k\<bar> < 2 ^ p" and q: "emin - int p + 1 \<le> q"
  shows "rnd p emin (of_int k * 2 powi q) = of_int k * 2 powi q"
proof (cases "k = 0")
  case True
  then show ?thesis by simp
next
  case False
  define v :: real where "v = of_int k * 2 powi q"
  have vn: "v \<noteq> 0" using False by (simp add: v_def)
  define e where "e = max \<lfloor>log 2 \<bar>v\<bar>\<rfloor> emin"
  have av: "\<bar>v\<bar> = of_int \<bar>k\<bar> * 2 powi q" by (simp add: v_def abs_mult)
  have "real_of_int \<bar>k\<bar> < 2 ^ p" using k by (metis of_int_less_numeral_power_cancel_iff)
  then have "\<bar>v\<bar> < 2 ^ p * 2 powi q" unfolding av by simp
  also have "\<dots> = 2 powi (int p + q)" by (simp add: power_int_add)
  finally have "log 2 \<bar>v\<bar> < real_of_int (int p + q)"
    using vn by (intro log2_less_powi) simp_all
  then have "\<lfloor>log 2 \<bar>v\<bar>\<rfloor> < int p + q" by linarith
  then have le: "e - int p + 1 \<le> q" using q by (simp add: e_def)
  define j where "j = nat (q - (e - int p + 1))"
  have "(2 :: real) powi q = 2 powi (e - int p + 1) * 2 ^ j"
  proof -
    have "q = (e - int p + 1) + int j" using le by (simp add: j_def)
    then have "(2 :: real) powi q = 2 powi ((e - int p + 1) + int j)" by simp
    also have "\<dots> = 2 powi (e - int p + 1) * 2 powi (int j)" by (simp add: power_int_add)
    finally show ?thesis by simp
  qed
  then have s: "v = of_int (k * 2 ^ j) * 2 powi (e - int p + 1)"
    by (simp add: v_def)
  then have "v / 2 powi (e - int p + 1) = of_int (k * 2 ^ j)"
    by simp
  then have "round_even (v / 2 powi (e - int p + 1)) = k * 2 ^ j"
    by (simp only: round_even_of_int)
  then have "of_int (round_even (v / 2 powi (e - int p + 1))) * 2 powi (e - int p + 1) = v"
    using s by simp
  then show ?thesis
    using vn unfolding v_def[symmetric] rnd_def Let_def e_def[symmetric] by simp
qed

lemma rnd_fixD:
  assumes "rnd p emin v = v"
  shows "\<exists>k q. v = of_int k * 2 powi q \<and> \<bar>k\<bar> < 2 ^ p \<and> emin - int p + 1 \<le> q"
proof (cases "v = 0")
  case True
  then have "v = of_int 0 * 2 powi (emin - int p + 1) \<and> \<bar>0 :: int\<bar> < 2 ^ p" by simp
  then show ?thesis by blast
next
  case False
  define e where "e = max \<lfloor>log 2 \<bar>v\<bar>\<rfloor> emin"
  define u :: real where "u = 2 powi (e - int p + 1)"
  define n where "n = round_even (v / u)"
  have up: "0 < u" by (simp add: u_def)
  have v: "v = of_int n * u"
    using assms False unfolding rnd_def Let_def e_def[symmetric] u_def[symmetric] n_def by simp
  have "log 2 \<bar>v\<bar> < real_of_int \<lfloor>log 2 \<bar>v\<bar>\<rfloor> + 1" by linarith
  moreover have "(log 2 \<bar>v\<bar> < real_of_int \<lfloor>log 2 \<bar>v\<bar>\<rfloor> + 1)
      = (\<bar>v\<bar> < 2 powr (real_of_int \<lfloor>log 2 \<bar>v\<bar>\<rfloor> + 1))"
    using False by (intro log_less_iff) simp_all
  ultimately have "\<bar>v\<bar> < 2 powr (real_of_int \<lfloor>log 2 \<bar>v\<bar>\<rfloor> + 1)"
    by (rule rev_iffD1)
  also have "\<dots> \<le> 2 powr (real_of_int e + 1)"
    by (simp add: e_def)
  also have "\<dots> = 2 powr (real_of_int (e + 1))" by simp
  also have "\<dots> = 2 powi (e + 1)" by (intro powr_real_of_int') simp_all
  finally have "\<bar>v\<bar> < 2 powi (e + 1)" .
  then have "\<bar>of_int n\<bar> * u < 2 powi (e + 1)" using up by (simp add: v abs_mult)
  also have "(2 :: real) powi (e + 1) = 2 ^ p * u"
  proof -
    have "e + 1 = int p + (e - int p + 1)" by simp
    then have "(2 :: real) powi (e + 1) = 2 powi (int p + (e - int p + 1))" by simp
    also have "\<dots> = 2 powi (int p) * 2 powi (e - int p + 1)" by (rule power_int_add) simp
    finally show ?thesis by (simp add: u_def)
  qed
  finally have "\<bar>real_of_int n\<bar> < 2 ^ p" using up by simp
  then have "\<bar>n\<bar> < 2 ^ p" by (metis of_int_abs of_int_less_numeral_power_cancel_iff)
  moreover have "emin - int p + 1 \<le> e - int p + 1" by (simp add: e_def)
  ultimately show ?thesis using v unfolding u_def by blast
qed

lemma rnd_double:
  assumes "rnd p emin v = v"
  shows "rnd p emin (2 * v) = 2 * v"
proof -
  from rnd_fixD[OF assms] obtain k q where v: "v = of_int k * 2 powi q"
    and k: "\<bar>k\<bar> < 2 ^ p" and q: "emin - int p + 1 \<le> q" by blast
  have "2 * v = of_int k * 2 powi (q + 1)"
    by (simp add: v power_int_add)
  moreover have "rnd p emin (of_int k * 2 powi (q + 1)) = of_int k * 2 powi (q + 1)"
    using k q by (intro rnd_grid) simp_all
  ultimately show ?thesis by simp
qed

lemma rnd_unit_interval:
  assumes "0 \<le> v" "v \<le> 1" "emin \<le> 0" "0 < p"
  shows "0 \<le> rnd p emin v \<and> rnd p emin v \<le> 1"
proof (cases "v = 0")
  case True
  then show ?thesis by simp
next
  case False
  then have vp: "0 < v" using assms(1) by simp
  define e where "e = max \<lfloor>log 2 \<bar>v\<bar>\<rfloor> emin"
  define u :: real where "u = 2 powi (e - int p + 1)"
  have up: "0 < u" by (simp add: u_def)
  have "log 2 \<bar>v\<bar> \<le> 0" using vp assms(2) by simp
  then have "\<lfloor>log 2 \<bar>v\<bar>\<rfloor> \<le> 0" by linarith
  then have e0: "e \<le> 0" using assms(3) by (simp add: e_def)
  define j where "j = nat (int p - 1 - e)"
  have "int p - 1 - e = - (e - int p + 1)" by simp
  then have "(2 :: real) powi (int p - 1 - e) = inverse u"
    unfolding u_def by (simp only: power_int_minus)
  moreover have "int p - 1 - e = int j" using e0 assms(4) by (simp add: j_def)
  ultimately have iu: "1 / u = of_int (2 ^ j)" by (simp add: inverse_eq_divide)
  have r: "rnd p emin v = of_int (round_even (v / u)) * u"
    using False unfolding rnd_def Let_def e_def[symmetric] u_def[symmetric] by simp
  have "round_even 0 \<le> round_even (v / u)"
    using vp up by (intro round_even_mono) simp
  then have lo: "0 \<le> round_even (v / u)" using round_even_of_int[of 0] by simp
  have "v / u \<le> 1 / u" using assms(2) up by (simp add: divide_right_mono)
  then have "round_even (v / u) \<le> round_even (1 / u)" by (rule round_even_mono)
  then have "round_even (v / u) \<le> 2 ^ j" unfolding iu by (simp only: round_even_of_int)
  then have "real_of_int (round_even (v / u)) \<le> 1 / u"
    unfolding iu by (simp only: of_int_le_iff)
  then have "real_of_int (round_even (v / u)) * u \<le> 1"
    using up by (simp add: field_simps)
  moreover have "0 \<le> real_of_int (round_even (v / u)) * u" using lo up by simp
  ultimately show ?thesis by (simp add: r)
qed

lemma rnd_underflow:
  assumes "0 < v" "v < 2 powi (emin - int p)"
  shows "rnd p emin v = 0"
proof -
  have "(2 :: real) powi (emin - int p) \<le> 2 powi emin"
    by (intro power_int_increasing) simp_all
  then have "\<bar>v\<bar> < 2 powi emin" using assms by simp
  moreover have "v \<noteq> 0" using assms(1) by simp
  ultimately have r: "rnd p emin v =
      of_int (round_even (v / 2 powi (emin - int p + 1))) * 2 powi (emin - int p + 1)"
    by (intro rnd_subnormal)
  have "(2 :: real) powi (emin - int p + 1) = 2 * 2 powi (emin - int p)"
    by (simp add: power_int_add)
  then have "v / 2 powi (emin - int p + 1) < 1 / 2"
    using assms(2) by (simp add: field_simps)
  moreover have "0 \<le> v / 2 powi (emin - int p + 1)" using assms(1) by simp
  ultimately have "round_even (v / 2 powi (emin - int p + 1)) = 0"
    by (intro round_even_eqI) simp_all
  then show ?thesis by (simp add: r)
qed

text \<open>Integers below \<open>2 ^ 24\<close> in magnitude are \<^verbatim>\<open>float\<close> values.\<close>

lemma rnd32_of_int:
  assumes "\<bar>k\<bar> < 16777216"
  shows "rnd32 (of_int k) = of_int k"
  using rnd_grid[of k 24 "- 126" 0] assms by (simp add: rnd32_def)

lemma rnd32_0 [simp]: "rnd32 0 = 0"
  by (simp add: rnd32_def)

lemma rnd32_1 [simp]: "rnd32 1 = 1"
  using rnd32_of_int[of 1] by simp

lemma rnd32_numeral:
  "numeral n < (16777216 :: int) \<Longrightarrow> rnd32 (numeral n) = numeral n"
  using rnd32_of_int[of "numeral n"] by simp

lemma rnd32_neg_numeral:
  "numeral n < (16777216 :: int) \<Longrightarrow> rnd32 (- numeral n) = - numeral n"
  using rnd32_of_int[of "- numeral n"] by simp

lemma float32_of_int:
  assumes "\<bar>k\<bar> < 16777216"
  shows "float32 (of_int k)"
proof -
  have "\<bar>real_of_int k\<bar> < 16777216" using assms by linarith
  then show ?thesis
    using rnd32_of_int[OF assms] by (simp add: float32_def finite32_def)
qed

lemma float32_numeral:
  "numeral n < (16777216 :: int) \<Longrightarrow> float32 (numeral n)"
  using float32_of_int[of "numeral n"] by simp

lemma float32_1: "float32 1"
  using float32_of_int[of 1] by simp

lemma float32_double:
  assumes "float32 v"
  shows "rnd32 (2 * v) = 2 * v"
  using assms rnd_double[of 24 "- 126" v] by (simp add: float32_def rnd32_def)

subsection \<open>Sub-pixel peak\<close>

text \<open>
  \<open>2 ^ 24 + 1\<close> lies halfway between the neighbouring \<^verbatim>\<open>float\<close> values \<open>2 ^ 24\<close> and
  \<open>2 ^ 24 + 2\<close> and is rounded to the even one.
\<close>

lemma rnd32_tie: "rnd32 16777217 = 16777216"
proof -
  have "rnd32 16777217 =
      of_int (round_even (16777217 / 2 powi (24 - int 24 + 1))) * 2 powi (24 - int 24 + 1)"
    unfolding rnd32_def by (rule rnd_binade) simp_all
  moreover have "(16777217 :: real) / 2 powi (24 - int 24 + 1) = of_int 8388608 + 1 / 2"
    by simp
  moreover have "round_even (of_int 8388608 + 1 / 2) = 8388608"
    by (simp only: round_even_half) simp
  ultimately show ?thesis by simp
qed

lemma rnd32_even_25: "rnd32 16777218 = 16777218"
  using rnd_grid[of 8388609 24 "- 126" 1] by (simp add: rnd32_def)

lemma rnd32_2_24: "rnd32 16777216 = 16777216"
  using rnd_grid[of 8388608 24 "- 126" 1] by (simp add: rnd32_def)

lemma peak_tie: "subPixelPeak 16777216 8388609 1 = 0"
  by (simp add: subPixelPeak_def Let_def rnd32_even_25 rnd32_tie)

text \<open>
  Claim C3, as stated, has \<^verbatim>\<open>subPixelPeak\<close> return
  \<open>0.5 * (right - left) / (2 * center - right - left)\<close> whenever \<open>2 * center - left - right\<close>
  is not 0. For the \<^verbatim>\<open>float\<close> values \<open>left = 2 ^ 24\<close>, \<open>center = 2 ^ 23 + 1\<close>, \<open>right = 1\<close>
  that expression is 1, but the program's divisor is 0: \<open>2 * center - right = 2 ^ 24 + 1\<close>
  is rounded to \<open>2 ^ 24\<close>. The program returns 0, the formula is \<open>- 8388607.5\<close>.
\<close>

theorem subPixelPeak_counterexample:
  "float32 16777216 \<and> float32 8388609 \<and> float32 1
   \<and> peak_finite 16777216 8388609 1
   \<and> subPixelPeak 16777216 8388609 1 = 0
   \<and> 2 * 8388609 - 16777216 - 1 = (1 :: real)
   \<and> 0.5 * (1 - 16777216) / (2 * 8388609 - 1 - 16777216) = (- 8388607.5 :: real)"
proof -
  have "float32 16777216"
    by (simp add: float32_def finite32_def rnd32_2_24)
  moreover have "float32 8388609" by (rule float32_numeral) simp
  moreover have "peak_finite 16777216 8388609 1"
    by (simp add: peak_finite_def finite32_def peak_tie rnd32_even_25 rnd32_tie
        rnd32_numeral rnd32_neg_numeral)
  ultimately show ?thesis
    by (simp add: float32_1 peak_tie)
qed

text \<open>
  Claim C3, amended. For \<^verbatim>\<open>float\<close> inputs on which no step overflows, \<^verbatim>\<open>subPixelPeak\<close>
  returns exactly 0 when \<open>2 * center - left - right = 0\<close>. In general it returns 0 when
  the divisor as computed in single precision, \<open>fl (fl (2 * center - right) - left)\<close>, is
  0, and otherwise \<open>0.5 * fl (right - left)\<close> divided by that divisor, rounded to double and
  then to single precision. When the three differences \<open>2 * center - right\<close>,
  \<open>2 * center - right - left\<close> and \<open>right - left\<close> are \<^verbatim>\<open>float\<close> values, this is
  \<open>0.5 * (right - left) / (2 * center - right - left)\<close>, rounded.
\<close>

theorem subPixelPeak_float:
  assumes "float32 left" "float32 center" "float32 right" "peak_finite left center right"
  shows "(2 * center - left - right = 0 \<longrightarrow> subPixelPeak left center right = 0)
       \<and> subPixelPeak left center right =
           (if rnd32 (rnd32 (2 * center - right) - left) = 0 then 0
            else rnd32 (rnd64 (0.5 * rnd32 (right - left)
                                / rnd32 (rnd32 (2 * center - right) - left))))
       \<and> (float32 (2 * center - right) \<and> float32 (2 * center - right - left)
            \<and> float32 (right - left) \<longrightarrow>
            subPixelPeak left center right =
              (if 2 * center - left - right = 0 then 0
               else rnd32 (rnd64 (0.5 * (right - left) / (2 * center - right - left)))))"
proof -
  have c: "rnd32 (2 * center) = 2 * center"
    using assms(2) by (rule float32_double)
  have g: "subPixelPeak left center right =
           (if rnd32 (rnd32 (2 * center - right) - left) = 0 then 0
            else rnd32 (rnd64 (0.5 * rnd32 (right - left)
                                / rnd32 (rnd32 (2 * center - right) - left))))"
    by (simp add: subPixelPeak_def Let_def c)
  have z: "subPixelPeak left center right = 0" if "2 * center - left - right = 0"
  proof -
    from that have "2 * center - right = left" by simp
    then have "rnd32 (rnd32 (2 * center - right) - left) = 0"
      using assms(1) by (simp add: float32_def)
    then show ?thesis by (simp add: g)
  qed
  have e: "subPixelPeak left center right =
              (if 2 * center - left - right = 0 then 0
               else rnd32 (rnd64 (0.5 * (right - left) / (2 * center - right - left))))"
    if "float32 (2 * center - right)" "float32 (2 * center - right - left)"
      "float32 (right - left)"
  proof -
    have "rnd32 (rnd32 (2 * center - right) - left) = 2 * center - right - left"
      using that(1,2) by (simp add: float32_def)
    moreover have "rnd32 (right - left) = right - left"
      using that(3) by (simp add: float32_def)
    moreover have "(2 * center - right - left = 0) = (2 * center - left - right = 0)"
      by auto
    ultimately show ?thesis by (simp add: g)
  qed
  show ?thesis using g z e by blast
qed

text \<open>
  The response values 4, 9, 6 around a peak: the divisor is 8 and the correction is
  \<open>0.5 * 2 / 8\<close>.
\<close>

lemma rnd_eighth: "rnd32 (rnd64 (1 / 8)) = 1 / 8"
proof -
  have a: "rnd64 (1 / 8) = 1 / 8"
    using rnd_grid[of 1 53 "- 1022" "- 3"] by (simp add: rnd64_def power_int_minus)
  have b: "rnd32 (1 / 8) = 1 / 8"
    using rnd_grid[of 1 24 "- 126" "- 3"] by (simp add: rnd32_def power_int_minus)
  show ?thesis by (simp only: a b)
qed

lemma peak_4_9_6: "subPixelPeak 4 9 6 = 1 / 8"
  using rnd_eighth by (simp add: subPixelPeak_def Let_def rnd32_numeral)

theorem subPixelPeak_float_witness:
  "float32 4 \<and> float32 9 \<and> float32 6 \<and> peak_finite 4 9 6
   \<and> float32 (2 * 9 - 6) \<and> float32 (2 * 9 - 6 - 4) \<and> float32 (6 - 4)
   \<and> subPixelPeak 4 9 6 = 1 / 8
   \<and> 0.5 * (6 - 4) / (2 * 9 - 6 - 4) = (1 / 8 :: real)"
proof -
  have f: "float32 4" "float32 9" "float32 6" "float32 (2 * 9 - 6)"
    "float32 (2 * 9 - 6 - 4)" "float32 (6 - 4)"
    by (simp_all add: float32_numeral)
  have p: "peak_finite 4 9 6"
    by (simp add: peak_finite_def finite32_def peak_4_9_6 rnd32_numeral)
  from subPixelPeak_float[OF f(1,2,3) p] f(4,5,6)
  have "subPixelPeak 4 9 6 = rnd32 (rnd64 (0.5 * (6 - 4) / (2 * 9 - 6 - 4)))"
    by simp
  then show ?thesis using f p rnd_eighth by simp
qed

subsection \<open>Truncation and the bounds of the scale factor\<close>

lemma f2i_of_int [simp]: "f2i (real_of_int k) = k"
  by (simp add: f2i_def)

lemma f2i_numeral [simp]: "f2i (numeral k) = numeral k" "f2i 0 = 0" "f2i 1 = 1"
  by (simp_all add: f2i_def)

lemma f2i_divide_numeral [simp]:
  "f2i (numeral a / numeral b) = numeral a div numeral b"
  "f2i (1 / numeral b) = 1 div numeral b"
  by (simp_all add: f2i_def floor_divide_of_int_eq[symmetric] del: floor_divide_of_int_eq)



lemma ln_half_le: "ln (1 / 2 :: real) \<le> - (3 / 5)"
proof -
  have "exp (3 / 5 :: real) \<le> 1 + 3 / 5 + (3 / 5)\<^sup>2"
    by (rule exp_bound) simp_all
  also have "\<dots> \<le> 2" by (simp add: power2_eq_square)
  finally have "exp (3 / 5 :: real) \<le> 2" .
  then have "3 / 5 \<le> ln (2 :: real)"
    using ln_ge_iff[of 2 "3 / 5"] by simp
  moreover have "ln (1 / 2 :: real) = - ln 2"
    by (simp add: ln_div)
  ultimately show ?thesis by simp
qed

lemma min_factor_small:
  "(21 / 20 :: real) powi \<lceil>ln (1 / 2 :: real) * 5000 / 43\<rceil> \<le> 1 / 25"
proof -
  have "ln (1 / 2 :: real) * 5000 / 43 \<le> - 69"
    using ln_half_le by simp
  then have "\<lceil>ln (1 / 2 :: real) * 5000 / 43\<rceil> \<le> - 69"
    by (simp add: ceiling_le_iff)
  then have "(21 / 20 :: real) powi \<lceil>ln (1 / 2 :: real) * 5000 / 43\<rceil>
      \<le> (21 / 20) powi (- 69)"
    by (intro power_int_increasing) simp_all
  also have "\<dots> \<le> 1 / 25"
    by (simp add: power_int_minus power_divide field_simps)
  finally show ?thesis .
qed

lemma min_factor_full:
  "(21 / 20 :: real) powi \<lceil>ln (1 / 20 :: real) * 5000 / 43\<rceil> \<le> 1"
proof -
  have "ln (1 / 20 :: real) \<le> 0" by simp
  then have "ln (1 / 20 :: real) * 5000 / 43 \<le> 0" by simp
  then have "\<lceil>ln (1 / 20 :: real) * 5000 / 43\<rceil> \<le> 0"
    by (simp add: ceiling_le_iff)
  then have "(21 / 20 :: real) powi \<lceil>ln (1 / 20 :: real) * 5000 / 43\<rceil>
      \<le> (21 / 20) powi 0"
    by (intro power_int_increasing) simp_all
  then show ?thesis by simp
qed

subsection \<open>The clamps and one call of update\<close>

lemma clamp_frame_size [simp]:
  "box_width (clamp_frame r cols rows) = box_width r"
  "box_height (clamp_frame r cols rows) = box_height r"
  by (simp_all add: clamp_frame_def Let_def)

lemma clamp_frame_lower:
  "box_x (clamp_frame r cols rows) + box_width r > 0"
  "box_y (clamp_frame r cols rows) + box_height r > 0"
  by (simp_all add: clamp_frame_def Let_def)

lemma clamp_frame_upper_x:
  "3 - box_width r \<le> real_of_int cols \<Longrightarrow>
     box_x (clamp_frame r cols rows) \<le> real_of_int (cols - 1)"
  by (simp add: clamp_frame_def Let_def)

lemma clamp_frame_upper_y:
  "3 - box_height r \<le> real_of_int rows \<Longrightarrow>
     box_y (clamp_frame r cols rows) \<le> real_of_int (rows - 1)"
  by (simp add: clamp_frame_def Let_def)

lemma update_InrD:
  assumes "update t cols rows res i = Inr (t', box)"
  shows "i < length (scaleFactors t)"
    and "currentScaleFactor t' =
          (if currentScaleFactor t * scaleFactors t ! i < min_scale_factor t
           then min_scale_factor t else currentScaleFactor t * scaleFactors t ! i)"
    and "min_scale_factor t' = min_scale_factor t"
    and "max_scale_factor t' = max_scale_factor t"
    and "box = to_Rect (kcf_roi t')"
    and "0 \<le> box_width (kcf_roi t')" and "0 \<le> box_height (kcf_roi t')"
    and "\<exists>r. kcf_roi t' = clamp_frame r cols rows"
  using assms
  by (auto simp add: update_def Let_def train_scale_def update_roi_def split: if_splits)

lemma update_step:
  assumes i: "i < length (scaleFactors t)"
    and s: "s = currentScaleFactor t * scaleFactors t ! i"
    and m: "min_scale_factor t \<le> s"
    and ra: "ra = clamp_entry (kcf_roi t) cols rows"
    and rb: "rb = clamp_frame
        (ra\<lparr>box_x := box_x ra + box_width ra / 2 - box_width ra / 2
                   + pt_x res * real_of_int (cell_size t) * kcf_scale t * currentScaleFactor t,
            box_y := box_y ra + box_height ra / 2 - box_height ra / 2
                   + pt_y res * real_of_int (cell_size t) * kcf_scale t * currentScaleFactor t\<rparr>)
        cols rows"
    and rc: "rc = clamp_frame
        \<lparr>box_x = box_x rb + box_width rb / 2 - real_of_int (base_width t) * s / 2,
         box_y = box_y rb + box_height rb / 2 - real_of_int (base_height t) * s / 2,
         box_width = real_of_int (base_width t) * s,
         box_height = real_of_int (base_height t) * s\<rparr> cols rows"
    and pos: "0 \<le> real_of_int (base_width t) * s" "0 \<le> real_of_int (base_height t) * s"
  shows "update t cols rows res i =
           Inr (t\<lparr>kcf_roi := rc, currentScaleFactor := s\<rparr>, to_Rect rc)"
proof -
  have nl: "\<not> s < min_scale_factor t" using m by simp
  show ?thesis
    using i nl pos
    unfolding update_def Let_def train_scale_def update_roi_def rc rb ra s
    by simp
qed

subsection \<open>Initialisation\<close>

lemma round_tmpl_sz_not_assert: "round_tmpl_sz t w h \<noteq> Inl AssertionFailed"
  by (simp add: round_tmpl_sz_def)

lemma getFeatures_inithann_not_assert: "getFeatures_inithann t \<noteq> Inl AssertionFailed"
  by (simp add: getFeatures_inithann_def Let_def round_tmpl_sz_not_assert)

lemma dsstInit_not_assert: "dsstInit t roi cols rows \<noteq> Inl AssertionFailed"
  by (simp add: dsstInit_def Let_def)

lemma round_tmpl_sz_roi:
  "round_tmpl_sz t w h = Inr t' \<Longrightarrow>
     kcf_roi t' = kcf_roi t \<and> currentScaleFactor t' = currentScaleFactor t"
  by (auto simp add: round_tmpl_sz_def split: if_splits)

lemma getFeatures_inithann_roi:
  "getFeatures_inithann t = Inr t' \<Longrightarrow>
     kcf_roi t' = kcf_roi t \<and> currentScaleFactor t' = currentScaleFactor t"
  by (auto simp add: getFeatures_inithann_def Let_def split: if_splits dest!: round_tmpl_sz_roi)

lemma dsstInit_roi:
  assumes "dsstInit t roi cols rows = Inr t'" "currentScaleFactor t = 1"
    "kcf_roi t = to_Rect2f roi"
  shows "kcf_roi t' = to_Rect2f roi" "rect_width roi \<noteq> 0" "rect_height roi \<noteq> 0"
  using assms
  by (auto simp add: dsstInit_def Let_def train_scale_def update_roi_def to_Rect2f_def
      split: if_splits)

lemma init_InrD:
  assumes "init t roi cols rows = Inr t'" "currentScaleFactor t = 1"
  shows "kcf_roi t' = to_Rect2f roi" "0 < rect_width roi" "0 < rect_height roi"
proof -
  from assms(1) obtain t1 where nn: "0 \<le> rect_width roi" "0 \<le> rect_height roi"
    and g: "getFeatures_inithann (t\<lparr>kcf_roi := to_Rect2f roi\<rparr>) = Inr t1"
    and d: "dsstInit t1 roi cols rows = Inr t'"
    by (auto simp add: init_def Let_def split: if_splits sum.splits)
  from getFeatures_inithann_roi[OF g] assms(2)
  have "kcf_roi t1 = to_Rect2f roi" "currentScaleFactor t1 = 1" by simp_all
  from dsstInit_roi[OF d this(2) this(1)] nn
  show "kcf_roi t' = to_Rect2f roi" "0 < rect_width roi" "0 < rect_height roi" by simp_all
qed

lemma rect_intersect_frame:
  assumes "r = rect_intersect a \<lparr>rect_x = 0, rect_y = 0, rect_width = cols, rect_height = rows\<rparr>"
    and "0 < rect_width r" 
  shows "within_frame (to_Rect2f r) cols rows"
proof -
  have "0 \<le> rect_x r \<and> 0 \<le> rect_y r \<and> rect_x r + rect_width r \<le> cols
      \<and> rect_y r + rect_height r \<le> rows"
    using assms by (auto simp add: rect_intersect_def Let_def split: if_splits)
  then have "0 \<le> real_of_int (rect_x r) \<and> 0 \<le> real_of_int (rect_y r)
      \<and> real_of_int (rect_x r + rect_width r) \<le> real_of_int cols
      \<and> real_of_int (rect_y r + rect_height r) \<le> real_of_int rows"
    by (simp only: of_int_le_iff of_int_0_le_iff)
  then show ?thesis
    by (simp add: within_frame_def to_Rect2f_def)
qed

text \<open>
  On a freshly constructed multi-scale tracker, initialisation on a box of positive
  width and height in a frame that is not empty goes through.
\<close>

lemma round_tmpl_sz_shape:
  "round_tmpl_sz t w h = Inr t' \<Longrightarrow> \<exists>sz. t' = t\<lparr>tmpl_sz := sz\<rparr>"
  by (auto simp add: round_tmpl_sz_def split: if_splits)

lemma getFeatures_inithann_shape:
  assumes "getFeatures_inithann t = Inr t'"
  shows "\<exists>sc sz. t' = t\<lparr>kcf_scale := sc, tmpl_sz := sz\<rparr>"
  using assms
  by (auto simp add: getFeatures_inithann_def Let_def split: if_splits
      dest!: round_tmpl_sz_shape)

lemma round_tmpl_sz_returns:
  "hogfeatures t \<longrightarrow> cell_size t \<noteq> 0 \<Longrightarrow> \<exists>t'. round_tmpl_sz t w h = Inr t'"
  by (simp add: round_tmpl_sz_def)

lemma f2i_pos: "1 \<le> v \<Longrightarrow> 0 < f2i v"
  by (simp add: f2i_def)

lemma getFeatures_inithann_returns:
  assumes c: "hogfeatures t \<longrightarrow> cell_size t \<noteq> 0"
    and w: "1 \<le> box_width (kcf_roi t) * padding t"
    and h: "1 \<le> box_height (kcf_roi t) * padding t"
    and ts: "0 < template_size t"
  shows "\<exists>t'. getFeatures_inithann t = Inr t'"
proof -
  define pw where "pw = f2i (box_width (kcf_roi t) * padding t)"
  define ph where "ph = f2i (box_height (kcf_roi t) * padding t)"
  have p: "0 < pw" "0 < ph" using w h by (simp_all add: pw_def ph_def f2i_pos)
  define sc where "sc = (if pw \<ge> ph then real_of_int pw / real_of_int (template_size t)
                         else real_of_int ph / real_of_int (template_size t))"
  have scp: "sc \<noteq> 0" using p ts by (simp add: sc_def)
  have r: "\<exists>t'. round_tmpl_sz (t\<lparr>kcf_scale := v\<rparr>) a b = Inr t'" for v a b
    by (rule round_tmpl_sz_returns) (simp add: c)
  show ?thesis
  proof (cases "template_size t > 1")
    case True
    have "getFeatures_inithann t = round_tmpl_sz (t\<lparr>kcf_scale := sc\<rparr>)
            (f2i (real_of_int pw / sc)) (f2i (real_of_int ph / sc))"
      using True scp
      unfolding getFeatures_inithann_def Let_def pw_def[symmetric] ph_def[symmetric]
        sc_def[symmetric]
      by simp
    then show ?thesis using r by simp
  next
    case False
    then have "getFeatures_inithann t = round_tmpl_sz (t\<lparr>kcf_scale := 1\<rparr>) pw ph"
      unfolding getFeatures_inithann_def Let_def pw_def[symmetric] ph_def[symmetric]
      by simp
    then show ?thesis using r by simp
  qed
qed

lemma init_returns:
  assumes "0 < rect_width roi" "0 < rect_height roi" "0 < cols" "0 < rows"
  shows "\<exists>t'. init (KCFTracker u hog fixed_window True lab) roi cols rows = Inr t'
            \<and> kcf_roi t' = to_Rect2f roi \<and> currentScaleFactor t' = 1
            \<and> base_width t' = rect_width roi \<and> base_height t' = rect_height roi
            \<and> length (scaleFactors t') = 33 \<and> scaleFactors t' ! 16 = 1"
proof -
  define t where "t = KCFTracker u hog fixed_window True lab"
  have f: "padding t = 5 / 2" "template_size t = 96"
    "n_scales t = 33" "scale_step t = 21 / 20" "scale_padding t = 1"
    "scale_max_area t = 512" "currentScaleFactor t = 1"
    by (simp_all add: t_def KCFTracker_def Let_def)
  have c: "hogfeatures t \<longrightarrow> cell_size t \<noteq> 0"
    by (simp add: t_def KCFTracker_def Let_def)
  have "\<exists>t1. getFeatures_inithann (t\<lparr>kcf_roi := to_Rect2f roi\<rparr>) = Inr t1"
    using assms(1,2) c
    by (intro getFeatures_inithann_returns) (simp_all add: f to_Rect2f_def)
  then obtain t1 where g: "getFeatures_inithann (t\<lparr>kcf_roi := to_Rect2f roi\<rparr>) = Inr t1"
    by blast
  from getFeatures_inithann_shape[OF g] obtain sc sz
    where t1: "t1 = t\<lparr>kcf_roi := to_Rect2f roi, kcf_scale := sc, tmpl_sz := sz\<rparr>" by auto
  have am: "0 < max (5 / real_of_int (rect_width roi)) (5 / real_of_int (rect_height roi))"
    using assms(1) by (simp add: less_max_iff_disj)
  have ax: "0 < min (real_of_int rows / real_of_int (rect_height roi))
                    (real_of_int cols / real_of_int (rect_width roi))"
    using assms by simp
  have i: "init t roi cols rows = dsstInit t1 roi cols rows"
    using assms(1,2) g by (simp add: init_def Let_def)
  have n: "\<not> (rect_width roi = 0 \<or> rect_height roi = 0
      \<or> max (5 / real_of_int (rect_width roi)) (5 / real_of_int (rect_height roi))
           * (1 + scale_padding t1) \<le> 0
      \<or> min (real_of_int rows / real_of_int (rect_height roi))
             (real_of_int cols / real_of_int (rect_width roi)) \<le> 0
      \<or> scale_step t1 = 0
      \<or> (rect_width roi * rect_height roi > scale_max_area t1 \<and> scale_max_area t1 < 0))"
  proof -
    have "0 < max (5 / real_of_int (rect_width roi)) (5 / real_of_int (rect_height roi)) * 2"
      using am by simp
    then show ?thesis
      using assms(1,2) ax by (simp add: t1 f not_le del: min_less_iff_conj)
  qed
  have s16: "map (\<lambda>i. (21 / 20 :: real) powi (17 - int i - 1)) [0..<33] ! 16 = 1"
    by simp
  show ?thesis
    unfolding t_def[symmetric] i dsstInit_def Let_def if_not_P[OF n]
    using s16 by (simp add: Let_def train_scale_def update_roi_def t1 f to_Rect2f_def)
qed

subsection \<open>Concrete runs\<close>

text \<open>The fresh tracker, and the tracker initialised on the box at the left edge.\<close>

lemma fresh_fields:
  "padding fresh_tracker = 5/2" "template_size fresh_tracker = 96"
  "hogfeatures fresh_tracker" "cell_size fresh_tracker = 4"
  "n_scales fresh_tracker = 33" "scale_step fresh_tracker = 21/20"
  "scale_padding fresh_tracker = 1" "scale_max_area fresh_tracker = 512"
  "currentScaleFactor fresh_tracker = 1"
  by (simp_all add: fresh_tracker_def KCFTracker_def Let_def)

lemma init_edge: "init fresh_tracker edge_box 200 200 = Inr (fresh_tracker
          \<lparr>kcf_scale := 25 / 48,
             tmpl_sz := \<lparr>size_width = 104, size_height = 104\<rparr>,
             base_width := 20, base_height := 20,
             scaleFactors := map (\<lambda>i. (21 / 20) powi (16 - int i)) [0..<33],
             scale_model_width := 20, scale_model_height := 20,
             min_scale_factor := (21 / 20) powi \<lceil>ln (1 / 2 :: real) * 5000 / 43\<rceil>,
             max_scale_factor := (21 / 20) powi \<lfloor>ln (10 :: real) * 5000 / 43\<rfloor>,
             kcf_roi := \<lparr>box_x = - 10, box_y = 90, box_width = 20, box_height = 20\<rparr>\<rparr>)"
  by (simp add: init_def getFeatures_inithann_def Let_def fresh_fields edge_box_def
      round_tmpl_sz_def dsstInit_def train_scale_def update_roi_def signed_divide_int_def
      to_Rect2f_def)

lemma edge_fields:
  "kcf_roi edge_tracker = \<lparr>box_x = - 10, box_y = 90, box_width = 20, box_height = 20\<rparr>"
  "currentScaleFactor edge_tracker = 1"
  "base_width edge_tracker = 20" "base_height edge_tracker = 20"
  "cell_size edge_tracker = 4" "kcf_scale edge_tracker = 25 / 48"
  "n_scales edge_tracker = 33"
  "length (scaleFactors edge_tracker) = 33"
  "scaleFactors edge_tracker ! 0 = (21 / 20) ^ 16"
  "scaleFactors edge_tracker ! 32 = (20 / 21) ^ 16"
  "scaleFactors edge_tracker ! 22 = (20 / 21) ^ 6"
  "min_scale_factor edge_tracker \<le> 1 / 25"
  unfolding edge_tracker_def init_edge
  using min_factor_small
  by (simp_all add: fresh_fields power_int_minus power_divide)


lemma edge_state_fields [simp]:
  "kcf_roi (edge_state s) = \<lparr>box_x = - (10 * s), box_y = 100 - 10 * s,
                              box_width = 20 * s, box_height = 20 * s\<rparr>"
  "currentScaleFactor (edge_state s) = s"
  "base_width (edge_state s) = 20" "base_height (edge_state s) = 20"
  "cell_size (edge_state s) = 4" "kcf_scale (edge_state s) = 25 / 48"
  "n_scales (edge_state s) = 33"
  "scaleFactors (edge_state s) = scaleFactors edge_tracker"
  "min_scale_factor (edge_state s) = min_scale_factor edge_tracker"
  by (simp_all add: edge_state_def edge_fields)

lemma edge_state_again:
  "edge_state s\<lparr>kcf_roi := \<lparr>box_x = - (10 * s'), box_y = 100 - 10 * s',
                             box_width = 20 * s', box_height = 20 * s'\<rparr>,
                currentScaleFactor := s'\<rparr> = edge_state s'"
  by (simp add: edge_state_def)

lemma edge_state_1: "edge_tracker = edge_state 1"
proof -
  have "edge_state 1 = edge_tracker\<lparr>kcf_roi := kcf_roi edge_tracker,
                                    currentScaleFactor := currentScaleFactor edge_tracker\<rparr>"
    by (simp add: edge_state_def edge_fields)
  then show ?thesis by simp
qed

text \<open>
  One frame without motion on such a state: no clamp applies, and the box is resized
  about its centre.
\<close>

lemma edge_step:
  assumes s: "0 < s" and i: "i < 33" and f: "f = scaleFactors edge_tracker ! i"
    and fp: "0 < f" and m: "min_scale_factor edge_tracker \<le> s * f"
  shows "update (edge_state s) 200 200 no_motion i =
           Inr (edge_state (s * f), to_Rect (kcf_roi (edge_state (s * f))))"
proof -
  have p: "0 < s * f" using s fp by simp
  have e: "clamp_entry (kcf_roi (edge_state s)) 200 200 = kcf_roi (edge_state s)"
    using s by (simp add: clamp_entry_def)
  have "update (edge_state s) 200 200 no_motion i =
      Inr (edge_state s\<lparr>kcf_roi := \<lparr>box_x = - (10 * (s * f)), box_y = 100 - 10 * (s * f),
                                     box_width = 20 * (s * f), box_height = 20 * (s * f)\<rparr>,
                         currentScaleFactor := s * f\<rparr>,
           to_Rect \<lparr>box_x = - (10 * (s * f)), box_y = 100 - 10 * (s * f),
                    box_width = 20 * (s * f), box_height = 20 * (s * f)\<rparr>)"
  proof (rule update_step[where ra = "kcf_roi (edge_state s)"
          and rb = "kcf_roi (edge_state s)"])
    show "i < length (scaleFactors (edge_state s))" using i by (simp add: edge_fields)
    show "s * f = currentScaleFactor (edge_state s) * scaleFactors (edge_state s) ! i"
      by (simp add: f)
    show "min_scale_factor (edge_state s) \<le> s * f" using m by simp
    show "kcf_roi (edge_state s) = clamp_entry (kcf_roi (edge_state s)) 200 200"
      by (simp only: e)
    show "kcf_roi (edge_state s) = clamp_frame
        (kcf_roi (edge_state s)
         \<lparr>box_x := box_x (kcf_roi (edge_state s)) + box_width (kcf_roi (edge_state s)) / 2
                   - box_width (kcf_roi (edge_state s)) / 2
                   + pt_x no_motion * real_of_int (cell_size (edge_state s))
                     * kcf_scale (edge_state s) * currentScaleFactor (edge_state s),
          box_y := box_y (kcf_roi (edge_state s)) + box_height (kcf_roi (edge_state s)) / 2
                   - box_height (kcf_roi (edge_state s)) / 2
                   + pt_y no_motion * real_of_int (cell_size (edge_state s))
                     * kcf_scale (edge_state s) * currentScaleFactor (edge_state s)\<rparr>)
        200 200"
      using s by (simp add: no_motion_def clamp_frame_def)
    show "\<lparr>box_x = - (10 * (s * f)), box_y = 100 - 10 * (s * f),
           box_width = 20 * (s * f), box_height = 20 * (s * f)\<rparr> = clamp_frame
        \<lparr>box_x = box_x (kcf_roi (edge_state s)) + box_width (kcf_roi (edge_state s)) / 2
                 - real_of_int (base_width (edge_state s)) * (s * f) / 2,
         box_y = box_y (kcf_roi (edge_state s)) + box_height (kcf_roi (edge_state s)) / 2
                 - real_of_int (base_height (edge_state s)) * (s * f) / 2,
         box_width = real_of_int (base_width (edge_state s)) * (s * f),
         box_height = real_of_int (base_height (edge_state s)) * (s * f)\<rparr> 200 200"
      using p by (simp add: clamp_frame_def mult.commute)
    show "0 \<le> real_of_int (base_width (edge_state s)) * (s * f)" using p by simp
    show "0 \<le> real_of_int (base_height (edge_state s)) * (s * f)" using p by simp
  qed
  then show ?thesis by (simp add: edge_state_again)
qed

lemma shrink_powers:
  "(20 / 21 :: real) ^ 16 * (20 / 21) ^ 16 = (20 / 21) ^ 32"
  "(20 / 21 :: real) ^ 32 * (20 / 21) ^ 16 = (20 / 21) ^ 48"
  "(20 / 21 :: real) ^ 48 * (20 / 21) ^ 6 = (20 / 21) ^ 54"
  by (simp_all add: power_add[symmetric])

lemma init_edge_tracker: "init fresh_tracker edge_box 200 200 = Inr edge_tracker"
  unfolding edge_tracker_def init_edge by simp

lemma track_edge:
  "track edge_tracker 200 200 [(no_motion, 32), (no_motion, 32), (no_motion, 32)]
     = Inr (edge_state ((20 / 21) ^ 48))"
proof -
  have m: "min_scale_factor edge_tracker \<le> 1 * (20 / 21) ^ 16"
    "min_scale_factor edge_tracker \<le> (20 / 21) ^ 32"
    "min_scale_factor edge_tracker \<le> (20 / 21) ^ 48"
    using edge_fields(12) by (simp_all add: power_divide)
  have f: "(20 / 21) ^ 16 = scaleFactors edge_tracker ! 32"
    by (simp add: edge_fields)
  have p: "(0 :: real) < (20 / 21) ^ 16" "(0 :: real) < (20 / 21) ^ 32" by simp_all
  have a: "update (edge_state 1) 200 200 no_motion 32 =
      Inr (edge_state ((20 / 21) ^ 16), to_Rect (kcf_roi (edge_state ((20 / 21) ^ 16))))"
    using edge_step[of 1 32 "(20 / 21) ^ 16", OF _ _ f p(1) m(1)] by simp
  have b: "update (edge_state ((20 / 21) ^ 16)) 200 200 no_motion 32 =
      Inr (edge_state ((20 / 21) ^ 32), to_Rect (kcf_roi (edge_state ((20 / 21) ^ 32))))"
    using edge_step[of "(20 / 21) ^ 16" 32 "(20 / 21) ^ 16", unfolded shrink_powers,
        OF p(1) _ f p(1) m(2)] by simp
  have c: "update (edge_state ((20 / 21) ^ 32)) 200 200 no_motion 32 =
      Inr (edge_state ((20 / 21) ^ 48), to_Rect (kcf_roi (edge_state ((20 / 21) ^ 48))))"
    using edge_step[of "(20 / 21) ^ 32" 32 "(20 / 21) ^ 16", unfolded shrink_powers,
        OF p(2) _ f p(1) m(3)] by simp
  show ?thesis
    unfolding edge_state_1
    by (simp only: track.simps a b c fst_conv snd_conv sum.case)
qed

lemma shrunk_eq: "shrunk_tracker = edge_state ((20 / 21) ^ 48)"
  unfolding shrunk_tracker_def track_edge by simp

lemma track_shrunk:
  "track edge_tracker 200 200 [(no_motion, 32), (no_motion, 32), (no_motion, 32)]
     = Inr shrunk_tracker"
  by (simp only: track_edge shrunk_eq)

text \<open>
  The fourth frame, on which scale detection chooses column 22 (factor \<open>1.05 ^ - 6\<close>):
  the box is \<open>(- 0.717, 99.283, 1.435, 1.435)\<close>, returned as \<open>(- 1, 99, 1, 1)\<close>.
\<close>

lemma shrunk_step:
  "update shrunk_tracker 200 200 no_motion 22 =
     Inr (edge_state ((20 / 21) ^ 54),
          \<lparr>rect_x = - 1, rect_y = 99, rect_width = 1, rect_height = 1\<rparr>)"
proof -
  have m: "min_scale_factor edge_tracker \<le> (20 / 21) ^ 54"
    using edge_fields(12) by (simp add: power_divide)
  have lo: "(1 / 20 :: real) < (20 / 21) ^ 54" and hi: "(20 / 21 :: real) ^ 54 < 3 / 40"
    by (simp_all add: power_divide)
  have x: "round_even (- (10 * (20 / 21) ^ 54)) = - 1"
    using lo hi by (intro round_even_eqI) simp_all
  have y: "round_even (100 - 10 * (20 / 21) ^ 54) = 99"
    using lo hi by (intro round_even_eqI) simp_all
  have w: "round_even (20 * (20 / 21) ^ 54) = 1"
    using lo hi by (intro round_even_eqI) simp_all
  have f: "(20 / 21) ^ 6 = scaleFactors edge_tracker ! 22"
    by (simp add: edge_fields)
  have p: "(0 :: real) < (20 / 21) ^ 48" "(0 :: real) < (20 / 21) ^ 6" by simp_all
  have "update (edge_state ((20 / 21) ^ 48)) 200 200 no_motion 22 =
      Inr (edge_state ((20 / 21) ^ 54), to_Rect (kcf_roi (edge_state ((20 / 21) ^ 54))))"
    using edge_step[of "(20 / 21) ^ 48" 22 "(20 / 21) ^ 6", unfolded shrink_powers,
        OF p(1) _ f p(2) m] by simp
  then show ?thesis
    by (simp add: shrunk_eq to_Rect_def x y w)
qed

text \<open>The tracker initialised on the box that fills the frame.\<close>

lemma init_full: "init fresh_tracker full_box 200 200 = Inr (fresh_tracker
          \<lparr>kcf_scale := 125 / 24,
             tmpl_sz := \<lparr>size_width = 104, size_height = 104\<rparr>,
             base_width := 200, base_height := 200,
             scaleFactors := map (\<lambda>i. (21 / 20) powi (16 - int i)) [0..<33],
             scale_model_width := f2i (200 * sqrt (8 / 625)),
             scale_model_height := f2i (200 * sqrt (8 / 625)),
             min_scale_factor := (21 / 20) powi \<lceil>ln (1 / 20 :: real) * 5000 / 43\<rceil>,
             max_scale_factor := 1,
             kcf_roi := \<lparr>box_x = 0, box_y = 0, box_width = 200, box_height = 200\<rparr>\<rparr>)"
  by (simp add: init_def getFeatures_inithann_def Let_def fresh_fields full_box_def
      round_tmpl_sz_def dsstInit_def train_scale_def update_roi_def signed_divide_int_def
      to_Rect2f_def)

lemma full_fields:
  "kcf_roi full_tracker = \<lparr>box_x = 0, box_y = 0, box_width = 200, box_height = 200\<rparr>"
  "currentScaleFactor full_tracker = 1"
  "base_width full_tracker = 200" "base_height full_tracker = 200"
  "cell_size full_tracker = 4" "kcf_scale full_tracker = 125 / 24"
  "length (scaleFactors full_tracker) = 33"
  "scaleFactors full_tracker ! 0 = (21 / 20) ^ 16"
  "scaleFactors full_tracker ! 16 = 1"
  "max_scale_factor full_tracker = 1"
  "min_scale_factor full_tracker \<le> 1"
  unfolding full_tracker_def init_full
  using min_factor_full
  by (simp_all add: fresh_fields)

lemma full_step_grow:
  "update full_tracker 200 200 no_motion 0 =
     Inr (full_tracker
            \<lparr>kcf_roi := \<lparr>box_x = 100 - 100 * (21 / 20) ^ 16, box_y = 100 - 100 * (21 / 20) ^ 16,
                          box_width = 200 * (21 / 20) ^ 16, box_height = 200 * (21 / 20) ^ 16\<rparr>,
             currentScaleFactor := (21 / 20) ^ 16\<rparr>,
          \<lparr>rect_x = - 118, rect_y = - 118, rect_width = 437, rect_height = 437\<rparr>)"
proof -
  have lo: "(873 / 400 :: real) < (21 / 20) ^ 16" and hi: "(21 / 20 :: real) ^ 16 < 437 / 200"
    by (simp_all add: power_divide)
  have w: "round_even (200 * (21 / 20) ^ 16) = 437"
    using lo hi by (intro round_even_eqI) simp_all
  have x: "round_even (100 - 100 * (21 / 20) ^ 16) = - 118"
    using lo hi by (intro round_even_eqI) simp_all
  have m: "min_scale_factor full_tracker \<le> (21 / 20) ^ 16"
    using full_fields(11) lo by simp
  have "update full_tracker 200 200 no_motion 0 =
     Inr (full_tracker
            \<lparr>kcf_roi := \<lparr>box_x = 100 - 100 * (21 / 20) ^ 16, box_y = 100 - 100 * (21 / 20) ^ 16,
                          box_width = 200 * (21 / 20) ^ 16, box_height = 200 * (21 / 20) ^ 16\<rparr>,
             currentScaleFactor := (21 / 20) ^ 16\<rparr>,
          to_Rect \<lparr>box_x = 100 - 100 * (21 / 20) ^ 16, box_y = 100 - 100 * (21 / 20) ^ 16,
                   box_width = 200 * (21 / 20) ^ 16, box_height = 200 * (21 / 20) ^ 16\<rparr>)"
    using lo hi
    by (intro update_step[where ra = "kcf_roi full_tracker" and rb = "kcf_roi full_tracker"])
       (simp_all add: m full_fields no_motion_def clamp_entry_def clamp_frame_def)
  then show ?thesis by (simp add: to_Rect_def w x)
qed

lemma full_step_same:
  "update full_tracker 200 200 no_motion 16 = Inr (full_tracker, full_box)"
proof -
  have "update full_tracker 200 200 no_motion 16 =
      Inr (full_tracker \<lparr>kcf_roi := kcf_roi full_tracker, currentScaleFactor := 1\<rparr>,
           to_Rect (kcf_roi full_tracker))"
    by (intro update_step[where ra = "kcf_roi full_tracker" and rb = "kcf_roi full_tracker"])
       (simp_all add: full_fields no_motion_def clamp_entry_def clamp_frame_def)
  moreover have "full_tracker \<lparr>kcf_roi := kcf_roi full_tracker, currentScaleFactor := 1\<rparr>
      = full_tracker"
    by (simp add: full_fields(2)[symmetric])
  moreover have "to_Rect (kcf_roi full_tracker) = full_box"
    using round_even_of_int[of 0] round_even_of_int[of 200]
    by (simp add: full_fields to_Rect_def full_box_def)
  ultimately show ?thesis by simp
qed

text \<open>Initialisation on boxes that reach over the left edge.\<close>

lemma init_off_frame: "\<not> isl (init fresh_tracker off_frame_box 200 200)"
  by (simp add: init_def getFeatures_inithann_def Let_def fresh_fields off_frame_box_def
      round_tmpl_sz_def dsstInit_def signed_divide_int_def to_Rect2f_def)

lemma init_far_off: "\<not> isl (init fresh_tracker far_off_box 200 200)"
  by (simp add: init_def getFeatures_inithann_def Let_def fresh_fields far_off_box_def
      round_tmpl_sz_def dsstInit_def signed_divide_int_def to_Rect2f_def)

lemma init_pts_off_frame: "\<not> isl (init_pts fresh_tracker (- 5, 50) (35, 90) 200 200)"
  by (simp add: init_pts_def rect_intersect_def init_def getFeatures_inithann_def Let_def
      fresh_fields round_tmpl_sz_def dsstInit_def signed_divide_int_def f2i_def to_Rect2f_def)

subsection \<open>The scale factor after update\<close>

text \<open>
  Claim C1. Whenever \<^verbatim>\<open>update\<close> returns, the new \<^verbatim>\<open>currentScaleFactor\<close> is the old one
  times the table entry at the column scale detection chose, raised to
  \<^verbatim>\<open>min_scale_factor\<close> if it is below it: it is never below the minimum, and nothing
  bounds it from above, so a product above \<^verbatim>\<open>max_scale_factor\<close> is stored as it is.
\<close>

theorem update_scale_factor:
  assumes "update t cols rows res i = Inr (t', box)"
  shows "currentScaleFactor t' = max (min_scale_factor t) (currentScaleFactor t * scaleFactors t ! i)
       \<and> min_scale_factor t' = min_scale_factor t
       \<and> min_scale_factor t' \<le> currentScaleFactor t'
       \<and> (max_scale_factor t < currentScaleFactor t * scaleFactors t ! i
            \<longrightarrow> max_scale_factor t' < currentScaleFactor t')"
  using update_InrD(2,3,4)[OF assms] by (auto simp: max_def)

text \<open>
  On the tracker initialised on the full frame, scale detection choosing column 0
  (factor \<open>1.05 ^ 16\<close>) takes the scale factor from 1 to above \<^verbatim>\<open>max_scale_factor = 1\<close>.
\<close>

theorem update_scale_factor_witness:
  "update full_tracker 200 200 no_motion 0 =
     Inr (full_tracker
            \<lparr>kcf_roi := \<lparr>box_x = 100 - 100 * (21 / 20) ^ 16, box_y = 100 - 100 * (21 / 20) ^ 16,
                          box_width = 200 * (21 / 20) ^ 16, box_height = 200 * (21 / 20) ^ 16\<rparr>,
             currentScaleFactor := (21 / 20) ^ 16\<rparr>,
          \<lparr>rect_x = - 118, rect_y = - 118, rect_width = 437, rect_height = 437\<rparr>)
   \<and> max_scale_factor full_tracker < currentScaleFactor full_tracker * scaleFactors full_tracker ! 0
   \<and> max_scale_factor full_tracker < (21 / 20) ^ 16
   \<and> min_scale_factor full_tracker \<le> (21 / 20) ^ 16"
  using update_scale_factor[OF full_step_grow] full_step_grow
  by (simp add: full_fields power_divide)

subsection \<open>The box stored by init\<close>

text \<open>
  Claim C2, as stated, says that \<^verbatim>\<open>init(box, frame)\<close> clamps the box into the frame. It
  does not: on a fresh multi-scale tracker the box \<open>(-5, 50, 40, 40)\<close> is stored as it
  is on a 200 by 200 frame, outside the frame, and the box \<open>(-50, 50, 40, 40)\<close> is
  stored with \<open>x + width = -10\<close>.
\<close>

theorem init_clamp_counterexample:
  "\<not> isl (init fresh_tracker off_frame_box 200 200)
   \<and> kcf_roi (projr (init fresh_tracker off_frame_box 200 200))
       = \<lparr>box_x = - 5, box_y = 50, box_width = 40, box_height = 40\<rparr>
   \<and> \<not> within_frame \<lparr>box_x = - 5, box_y = 50, box_width = 40, box_height = 40\<rparr> 200 200
   \<and> \<not> isl (init fresh_tracker far_off_box 200 200)
   \<and> kcf_roi (projr (init fresh_tracker far_off_box 200 200))
       = \<lparr>box_x = - 50, box_y = 50, box_width = 40, box_height = 40\<rparr>
   \<and> box_x \<lparr>box_x = - 50, box_y = 50, box_width = 40, box_height = 40\<rparr>
       + box_width \<lparr>box_x = - 50, box_y = 50, box_width = 40, box_height = 40\<rparr> = - 10"
proof -
  have a: "init fresh_tracker off_frame_box 200 200
      = Inr (projr (init fresh_tracker off_frame_box 200 200))"
    using init_off_frame by simp
  have b: "init fresh_tracker far_off_box 200 200
      = Inr (projr (init fresh_tracker far_off_box 200 200))"
    using init_far_off by simp
  show ?thesis
    using init_InrD(1)[OF a fresh_fields(9)] init_InrD(1)[OF b fresh_fields(9)]
      init_off_frame init_far_off
    by (simp add: within_frame_def off_frame_box_def far_off_box_def to_Rect2f_def)
qed

text \<open>
  Claim C2, amended. On a tracker whose scale factor is 1 (a freshly constructed
  multi-scale tracker), \<^verbatim>\<open>init(pt1, pt2, frame)\<close> cuts the box spanned by the two points
  to the frame before it initialises: when it returns, the stored box lies within the
  frame and has \<open>x + width > 0\<close>. \<^verbatim>\<open>init(box, frame)\<close> stores the given box unchanged.
\<close>

theorem init_clamp:
  assumes "currentScaleFactor t = 1"
  shows "(init_pts t pt1 pt2 cols rows = Inr t' \<longrightarrow>
            within_frame (kcf_roi t') cols rows
            \<and> box_x (kcf_roi t') + box_width (kcf_roi t') > 0)
       \<and> (init t roi cols rows = Inr t'' \<longrightarrow> kcf_roi t'' = to_Rect2f roi)"
proof (intro conjI impI)
  assume a: "init_pts t pt1 pt2 cols rows = Inr t'"
  define r where "r = rect_intersect
      \<lparr>rect_x = min (fst pt1) (fst pt2), rect_y = min (snd pt1) (snd pt2),
       rect_width = \<bar>fst pt2 - fst pt1\<bar>, rect_height = \<bar>snd pt2 - snd pt1\<bar>\<rparr>
      \<lparr>rect_x = 0, rect_y = 0, rect_width = cols, rect_height = rows\<rparr>"
  from a have i: "init t r cols rows = Inr t'"
    by (simp add: init_pts_def Let_def r_def)
  from init_InrD[OF i assms] have k: "kcf_roi t' = to_Rect2f r" and p: "0 < rect_width r"
    by simp_all
  from rect_intersect_frame[OF r_def p] show w: "within_frame (kcf_roi t') cols rows"
    by (simp add: k)
  have "0 < real_of_int (rect_width r)" using p by simp
  then show "box_x (kcf_roi t') + box_width (kcf_roi t') > 0"
    using w by (simp add: k within_frame_def to_Rect2f_def)
next
  assume "init t roi cols rows = Inr t''"
  from init_InrD(1)[OF this assms] show "kcf_roi t'' = to_Rect2f roi" .
qed

theorem init_clamp_witness:
  "currentScaleFactor fresh_tracker = 1
   \<and> init_pts fresh_tracker (- 5, 50) (35, 90) 200 200
        = Inr (projr (init_pts fresh_tracker (- 5, 50) (35, 90) 200 200))
   \<and> within_frame (kcf_roi (projr (init_pts fresh_tracker (- 5, 50) (35, 90) 200 200))) 200 200
   \<and> init fresh_tracker off_frame_box 200 200
        = Inr (projr (init fresh_tracker off_frame_box 200 200))
   \<and> kcf_roi (projr (init fresh_tracker off_frame_box 200 200)) = to_Rect2f off_frame_box"
proof -
  have a: "init_pts fresh_tracker (- 5, 50) (35, 90) 200 200
        = Inr (projr (init_pts fresh_tracker (- 5, 50) (35, 90) 200 200))"
    using init_pts_off_frame by simp
  have b: "init fresh_tracker off_frame_box 200 200
      = Inr (projr (init fresh_tracker off_frame_box 200 200))"
    using init_off_frame by simp
  show ?thesis
    using init_clamp[OF fresh_fields(9),
        where ?pt1.0 = "(- 5, 50)" and ?pt2.0 = "(35, 90)" and cols = 200 and rows = 200
          and t' = "projr (init_pts fresh_tracker (- 5, 50) (35, 90) 200 200)"
          and roi = off_frame_box
          and t'' = "projr (init fresh_tracker off_frame_box 200 200)"]
      a b fresh_fields(9)
    by simp
qed

subsection \<open>The assertion of init\<close>

text \<open>
  Claim C7. \<^verbatim>\<open>init(boundingBox, firstFrame)\<close> fails its assertion exactly when the width
  or the height of the box is negative: then it ends there, before feature extraction
  and \<^verbatim>\<open>dsstInit\<close> build any state; with a non-negative width and height the assertion
  passes and initialisation goes on with the feature extraction and the scale setup.
\<close>

theorem init_assertion:
  "(rect_width roi < 0 \<or> rect_height roi < 0 \<longrightarrow> init t roi cols rows = Inl AssertionFailed)
   \<and> (0 \<le> rect_width roi \<and> 0 \<le> rect_height roi \<longrightarrow>
        init t roi cols rows \<noteq> Inl AssertionFailed
        \<and> init t roi cols rows =
            (case getFeatures_inithann (t\<lparr>kcf_roi := to_Rect2f roi\<rparr>) of
               Inl e \<Rightarrow> Inl e
             | Inr t1 \<Rightarrow> dsstInit t1 roi cols rows))"
  by (auto simp add: init_def Let_def getFeatures_inithann_not_assert dsstInit_not_assert
      split: sum.splits)

theorem init_assertion_witness:
  "init fresh_tracker \<lparr>rect_x = 0, rect_y = 0, rect_width = - 1, rect_height = 10\<rparr> 200 200
     = Inl AssertionFailed
   \<and> init fresh_tracker off_frame_box 200 200 \<noteq> Inl AssertionFailed
   \<and> \<not> isl (init fresh_tracker off_frame_box 200 200)"
proof -
  have a: "init fresh_tracker \<lparr>rect_x = 0, rect_y = 0, rect_width = - 1, rect_height = 10\<rparr>
      200 200 = Inl AssertionFailed"
    by (rule mp[OF conjunct1[OF init_assertion]]) simp
  have b: "init fresh_tracker off_frame_box 200 200 \<noteq> Inl AssertionFailed"
    by (rule conjunct1[OF mp[OF conjunct2[OF init_assertion]]]) (simp add: off_frame_box_def)
  show ?thesis using a b init_off_frame by simp
qed

subsection \<open>The box returned by update\<close>

text \<open>
  Claim C8, as stated, gives \<open>x + width > 0\<close> for the box that \<^verbatim>\<open>update\<close> returns. The
  clamps act on the float box; the returned \<^verbatim>\<open>cv::Rect\<close> holds its fields rounded to
  integers, each on its own. On a 200 by 200 frame the tracker initialised on the box
  \<open>(-10, 90, 20, 20)\<close>, after three frames without motion on which scale detection chose
  column 32 and a fourth on which it chose column 22, holds the box
  \<open>(-0.717, 99.283, 1.435, 1.435)\<close> and returns \<open>(-1, 99, 1, 1)\<close>, with \<open>x + width = 0\<close>.
\<close>

theorem update_final_clamp_counterexample:
  "init fresh_tracker edge_box 200 200 = Inr edge_tracker
   \<and> track edge_tracker 200 200 [(no_motion, 32), (no_motion, 32), (no_motion, 32)]
       = Inr shrunk_tracker
   \<and> update shrunk_tracker 200 200 no_motion 22 =
       Inr (edge_state ((20 / 21) ^ 54),
            \<lparr>rect_x = - 1, rect_y = 99, rect_width = 1, rect_height = 1\<rparr>)
   \<and> \<not> final_clamp_post \<lparr>rect_x = - 1, rect_y = 99, rect_width = 1, rect_height = 1\<rparr> 200 200"
proof -
  have "\<not> final_clamp_post \<lparr>rect_x = - 1, rect_y = 99, rect_width = 1, rect_height = 1\<rparr>
      200 200"
    by (simp add: final_clamp_post_def)
  with init_edge_tracker track_shrunk shrunk_step show ?thesis by blast
qed

text \<open>
  Claim C8, amended. Whenever \<^verbatim>\<open>update\<close> returns, the box it stores has \<open>x + width > 0\<close>
  and \<open>y + height > 0\<close>, and the box it returns has \<open>x + width \<ge> 0\<close> and
  \<open>y + height \<ge> 0\<close>; on a frame of at least 3 columns the returned box has
  \<open>x \<le> image.cols - 1\<close>, on a frame of at least 3 rows it has \<open>y \<le> image.rows - 1\<close>. The
  statement is made for frames and boxes of less than \<open>2 ^ 24\<close> pixels a side, the range
  in which the program converts between \<^verbatim>\<open>int\<close> and \<^verbatim>\<open>float\<close> without rounding.
\<close>

theorem update_final_clamp:
  assumes "update t cols rows res i = Inr (t', box)"
    and "cols \<le> 2 ^ 24" "rows \<le> 2 ^ 24"
    and "box_width (kcf_roi t') < 2 ^ 24" "box_height (kcf_roi t') < 2 ^ 24"
  shows "0 < box_x (kcf_roi t') + box_width (kcf_roi t')
       \<and> 0 < box_y (kcf_roi t') + box_height (kcf_roi t')
       \<and> 0 \<le> rect_x box + rect_width box \<and> 0 \<le> rect_y box + rect_height box
       \<and> (3 \<le> cols \<longrightarrow> rect_x box \<le> cols - 1)
       \<and> (3 \<le> rows \<longrightarrow> rect_y box \<le> rows - 1)"
proof -
  from update_InrD(8)[OF assms(1)] obtain r where k: "kcf_roi t' = clamp_frame r cols rows"
    by blast
  have b: "box = to_Rect (clamp_frame r cols rows)"
    using update_InrD(5)[OF assms(1)] by (simp add: k)
  have w: "0 \<le> box_width r" "0 \<le> box_height r"
    using update_InrD(6,7)[OF assms(1)] by (simp_all add: k)
  have sx: "0 < box_x (clamp_frame r cols rows) + box_width r"
    and sy: "0 < box_y (clamp_frame r cols rows) + box_height r"
    by (rule clamp_frame_lower)+
  have "round_even (- box_width r) \<le> round_even (box_x (clamp_frame r cols rows))"
    using sx by (intro round_even_mono) simp
  then have rx: "0 \<le> round_even (box_x (clamp_frame r cols rows)) + round_even (box_width r)"
    by (simp add: round_even_minus)
  have "round_even (- box_height r) \<le> round_even (box_y (clamp_frame r cols rows))"
    using sy by (intro round_even_mono) simp
  then have ry: "0 \<le> round_even (box_y (clamp_frame r cols rows)) + round_even (box_height r)"
    by (simp add: round_even_minus)
  have ux: "round_even (box_x (clamp_frame r cols rows)) \<le> cols - 1" if "3 \<le> cols"
  proof -
    have "3 - box_width r \<le> real_of_int cols" using that w(1) by simp
    then have "box_x (clamp_frame r cols rows) \<le> real_of_int (cols - 1)"
      by (rule clamp_frame_upper_x)
    then have "round_even (box_x (clamp_frame r cols rows))
        \<le> round_even (real_of_int (cols - 1))"
      by (rule round_even_mono)
    then show ?thesis by (simp only: round_even_of_int)
  qed
  have uy: "round_even (box_y (clamp_frame r cols rows)) \<le> rows - 1" if "3 \<le> rows"
  proof -
    have "3 - box_height r \<le> real_of_int rows" using that w(2) by simp
    then have "box_y (clamp_frame r cols rows) \<le> real_of_int (rows - 1)"
      by (rule clamp_frame_upper_y)
    then have "round_even (box_y (clamp_frame r cols rows))
        \<le> round_even (real_of_int (rows - 1))"
      by (rule round_even_mono)
    then show ?thesis by (simp only: round_even_of_int)
  qed
  show ?thesis
    using sx sy rx ry ux uy by (simp add: k b to_Rect_def)
qed

text \<open>
  The fourth frame of the run above: the stored box has \<open>x + width = 0.717\<close>, the
  returned box \<open>(-1, 99, 1, 1)\<close> has \<open>x + width = 0\<close> and \<open>x \<le> 199\<close>.
\<close>

theorem update_final_clamp_witness:
  "update shrunk_tracker 200 200 no_motion 22 =
       Inr (edge_state ((20 / 21) ^ 54),
            \<lparr>rect_x = - 1, rect_y = 99, rect_width = 1, rect_height = 1\<rparr>)
   \<and> (200 :: int) \<le> 2 ^ 24
   \<and> box_width (kcf_roi (edge_state ((20 / 21) ^ 54))) < 2 ^ 24
   \<and> box_height (kcf_roi (edge_state ((20 / 21) ^ 54))) < 2 ^ 24
   \<and> 0 < box_x (kcf_roi (edge_state ((20 / 21) ^ 54)))
           + box_width (kcf_roi (edge_state ((20 / 21) ^ 54)))
   \<and> (0 :: int) \<le> - 1 + 1 \<and> (3 :: int) \<le> 200 \<and> (- 1 :: int) \<le> 200 - 1"
proof -
  have h: "box_width (kcf_roi (edge_state ((20 / 21) ^ 54))) < 2 ^ 24"
    "box_height (kcf_roi (edge_state ((20 / 21) ^ 54))) < 2 ^ 24"
    by (simp_all add: power_divide)
  from update_final_clamp[OF shrunk_step _ _ h]
  have "0 < box_x (kcf_roi (edge_state ((20 / 21) ^ 54)))
           + box_width (kcf_roi (edge_state ((20 / 21) ^ 54)))"
    by simp
  then show ?thesis using shrunk_step h by simp
qed

subsection \<open>Cosine windows\<close>

lemma hann_entry_first: "hann_entry n 0 = 0"
  by (simp add: hann_entry_def)

lemma hann_entry_last:
  assumes "2 \<le> n"
  shows "hann_entry n (n - 1) = 0"
proof -
  have "real (n - 1) = real n - 1" using assms by (simp add: of_nat_diff)
  moreover have "real n - 1 \<noteq> 0" using assms by simp
  ultimately have "2 * pi * real (n - 1) / (real n - 1) = 2 * pi" by simp
  then show ?thesis by (simp add: hann_entry_def)
qed

lemma hann_entry_centre:
  assumes "2 \<le> n" "odd n"
  shows "hann_entry n ((n - 1) div 2) = 1"
proof -
  from assms(2) obtain k where k: "n = 2 * k + 1" by (auto elim: oddE)
  with assms(1) have kp: "0 < k" by simp
  have "(n - 1) div 2 = k" using k by simp
  moreover have "real n - 1 = 2 * real k" using k by simp
  ultimately have "2 * pi * real ((n - 1) div 2) / (real n - 1) = pi"
    using kp by simp
  then show ?thesis by (simp add: hann_entry_def)
qed

lemma window_list:
  assumes "2 \<le> n"
  shows "window_ends_centre (map (hann_entry n) [0..<n])"
  using assms hann_entry_first[of n] hann_entry_last[of n] hann_entry_centre[of n]
  by (simp add: window_ends_centre_def)

lemma cos_240: "cos (4 * pi / 3) = - 1 / 2"
proof -
  have "cos (4 * pi / 3) = cos (2 * pi - 2 * pi / 3)" by (simp add: field_simps)
  also have "\<dots> = cos (2 * pi / 3)" by (simp only: cos_2pi_minus)
  finally show ?thesis by (simp add: cos_120)
qed

lemma rnd32_three_quarters: "rnd32 (3 / 4) = 3 / 4"
  using rnd_grid[of 3 24 "- 126" "- 2"] by (simp add: rnd32_def power_int_minus)

text \<open>
  The numbers from \<open>1 - 2 ^ - 25\<close> to 1 are stored as 1, and the cosine is at least
  \<open>1 - x\<^sup>2 / 2\<close>: in a long window of even length the entries next to the centre
  are stored as 1.
\<close>

lemma rnd32_near_one:
  assumes "1 - 1 / 2 ^ 25 \<le> v" "v \<le> 1"
  shows "rnd32 v = 1"
proof (cases "v = 1")
  case True
  then show ?thesis by simp
next
  case False
  then have lt: "v < 1" using assms(2) by simp
  have ge: "1 / 2 \<le> v" using assms(1) by simp
  have "rnd32 v = of_int (round_even (v / 2 powi (- 1 - int 24 + 1))) * 2 powi (- 1 - int 24 + 1)"
    unfolding rnd32_def using ge lt by (intro rnd_binade) (simp_all add: power_int_minus)
  moreover have u: "(2 :: real) powi (- 1 - int 24 + 1) = 1 / 2 ^ 24"
    by (simp add: power_int_minus field_simps)
  moreover have "round_even (v * 2 ^ 24) = 2 ^ 24"
  proof -
    have a: "16777216 - 1 / 2 \<le> v * 16777216" using assms(1) by simp
    have b: "v * 16777216 < 16777216" using lt by simp
    have f: "\<lfloor>v * 16777216\<rfloor> = 16777215"
      using a b by (intro floor_unique) simp_all
    have "round_even (v * 16777216) = 16777216"
      using a unfolding round_even_def Let_def f by simp
    then show ?thesis by simp
  qed
  ultimately show ?thesis by simp
qed

lemma cos_lower: "1 - x\<^sup>2 / 2 \<le> cos (x :: real)"
proof -
  have "cos x = cos (2 * (x / 2))" by simp
  also have "\<dots> = 1 - 2 * (sin (x / 2))\<^sup>2" by (simp only: cos_double_sin)
  finally have c: "cos x = 1 - 2 * (sin (x / 2))\<^sup>2" .
  have "\<bar>sin (x / 2)\<bar> \<le> \<bar>x / 2\<bar>" by (rule abs_sin_x_le_abs_x)
  then have "(sin (x / 2))\<^sup>2 \<le> (x / 2)\<^sup>2" by (simp only: abs_le_square_iff)
  then show ?thesis unfolding c by (simp add: power2_eq_square)
qed


lemma hann_entry_even_one: "hann_entry 16384 8192 = 1"
proof -
  define d :: real where "d = pi / 16383"
  have dp: "0 \<le> d" "d \<le> 4 / 16383"
    using pi_less_4 pi_ge_zero by (simp_all add: d_def)
  have a: "2 * pi * real (8192 :: nat) / (real (16384 :: nat) - 1) = pi + d"
    by (simp add: d_def field_simps)
  have "hann_entry 16384 8192 = rnd32 (0.5 * (1 - cos (pi + d)))"
    by (simp only: hann_entry_def a)
  also have "cos (pi + d) = - cos d" by (rule cos_periodic_pi2)
  finally have h: "hann_entry 16384 8192 = rnd32 (0.5 * (1 + cos d))"
    by simp
  have "d\<^sup>2 \<le> (4 / 16383)\<^sup>2" using dp by (intro power_mono) simp_all
  then have "1 - (4 / 16383)\<^sup>2 / 2 \<le> cos d"
    using cos_lower[of d] by linarith
  then have "1 - 1 / 2 ^ 25 \<le> 0.5 * (1 + cos d)"
    by (simp add: power2_eq_square)
  moreover have "0.5 * (1 + cos d) \<le> 1"
    using cos_le_one[of d] by simp
  ultimately show ?thesis unfolding h by (rule rnd32_near_one)
qed

text \<open>
  Claim C5, as stated, has the window reach 1 at the centre index for every length from
  2 on. The row window of a feature map with 2 columns is \<open>[0, 0]\<close> and the one of a
  feature map with 4 columns is \<open>[0, 3/4, 3/4, 0]\<close>: neither has an entry 1.
\<close>

theorem cosine_window_counterexample:
  "mdata (hann1t (zeroed\<lparr>size_patch1 := 2\<rparr>)) = [0, 0]
   \<and> mdata (hann1t (zeroed\<lparr>size_patch1 := 4\<rparr>)) = [0, 3 / 4, 3 / 4, 0]"
proof -
  have "[0..<2] = [0, 1]" "[0..<4] = [0, 1, 2, 3]" by (simp_all add: upt_rec)
  then show ?thesis
    by (simp add: hann1t_def hann_entry_def cos_120 cos_240 rnd32_three_quarters)
qed

text \<open>
  Claim C5, amended. For every window length \<open>n \<ge> 2\<close>, each per-axis window (the row
  and the column of \<^verbatim>\<open>createHanningMats\<close>, the row of \<^verbatim>\<open>createHanningMatsForScale\<close>), with
  entry \<open>i\<close> equal to \<open>0.5 * (1 - cos (2 * pi * i / (n - 1)))\<close> as stored, is 0 at both end
  indices, and it is 1 at the centre index \<open>(n - 1) / 2\<close> when \<open>n\<close> is odd.
\<close>

theorem cosine_windows:
  "(2 \<le> size_patch1 t \<longrightarrow> window_ends_centre (mdata (hann1t t)))
   \<and> (2 \<le> size_patch0 t \<longrightarrow> window_ends_centre (mdata (hann2t t)))
   \<and> (2 \<le> n_scales t \<longrightarrow> window_ends_centre (mdata (createHanningMatsForScale t)))"
  by (simp add: hann1t_def hann2t_def createHanningMatsForScale_def window_list)

text \<open>
  The fresh tracker with a feature map of 6 rows and 4 columns: all three windows have
  a length of at least 2, and the scale window has the odd length 33.
\<close>

theorem cosine_windows_witness:
  "2 \<le> size_patch1 (fresh_tracker\<lparr>size_patch0 := 6, size_patch1 := 4\<rparr>)
   \<and> window_ends_centre (mdata (hann1t (fresh_tracker\<lparr>size_patch0 := 6, size_patch1 := 4\<rparr>)))
   \<and> 2 \<le> size_patch0 (fresh_tracker\<lparr>size_patch0 := 6, size_patch1 := 4\<rparr>)
   \<and> window_ends_centre (mdata (hann2t (fresh_tracker\<lparr>size_patch0 := 6, size_patch1 := 4\<rparr>)))
   \<and> n_scales (fresh_tracker\<lparr>size_patch0 := 6, size_patch1 := 4\<rparr>) = 33
   \<and> window_ends_centre
        (mdata (createHanningMatsForScale (fresh_tracker\<lparr>size_patch0 := 6, size_patch1 := 4\<rparr>)))"
  using cosine_windows[of "fresh_tracker\<lparr>size_patch0 := 6, size_patch1 := 4\<rparr>"]
  by (simp add: fresh_fields)

subsection \<open>Detection\<close>

lemma minMaxLoc_in_range:
  assumes "0 < mrows res" "0 < mcols res" "length (mdata res) = mrows res * mcols res"
    and "minMaxLoc res = (pv, pix, piy)"
  shows "0 \<le> pix" "pix < int (mcols res)" "0 \<le> piy" "piy < int (mrows res)"
proof -
  define k where "k = length (takeWhile (\<lambda>v. v \<noteq> Max (set (mdata res))) (mdata res))"
  have ne: "mdata res \<noteq> []" using assms(1,2,3) by auto
  then have "Max (set (mdata res)) \<in> set (mdata res)" by (intro Max_in) simp_all
  then have "takeWhile (\<lambda>v. v \<noteq> Max (set (mdata res))) (mdata res) \<noteq> mdata res"
    by (auto simp add: takeWhile_eq_all_conv)
  then have "k \<noteq> length (mdata res)"
    unfolding k_def by (metis takeWhile_eq_take take_all_iff order_refl)
  moreover have "k \<le> length (mdata res)" unfolding k_def by (rule length_takeWhile_le)
  ultimately have kl: "k < mrows res * mcols res" using assms(3) by simp
  have p: "pix = int (k mod mcols res)" "piy = int (k div mcols res)"
    using assms(4) by (auto simp add: minMaxLoc_def Let_def k_def)
  show "0 \<le> pix" "0 \<le> piy" by (simp_all add: p)
  show "pix < int (mcols res)" using assms(2) by (simp add: p)
  show "piy < int (mrows res)" using kl by (simp add: p less_mult_imp_div_less)
qed

lemma mat_at_in_range:
  "in_range m (r, c) \<Longrightarrow> mat_at m r c = Inr (mdata m ! (nat r * mcols m + nat c))"
  by (simp add: mat_at_def in_range_def)

lemma minMaxLoc_corner: "minMaxLoc corner_peak = (9, 0, 0)"
  by (simp add: minMaxLoc_def corner_peak_def Let_def)

lemma minMaxLoc_centre: "minMaxLoc centre_peak = (9, 1, 1)"
  by (simp add: minMaxLoc_def centre_peak_def Let_def)

lemma detect_corner: "detect corner_peak = Inr (\<lparr>pt_x = - 1, pt_y = - 1\<rparr>, 9, [])"
  unfolding detect_def minMaxLoc_corner
  by (simp add: corner_peak_def signed_divide_int_def)

lemma peak_3_9_7: "subPixelPeak 3 9 7 = 1 / 4"
proof -
  have a: "rnd64 (1 / 4) = 1 / 4"
    using rnd_grid[of 1 53 "- 1022" "- 2"] by (simp add: rnd64_def power_int_minus)
  have b: "rnd32 (1 / 4) = 1 / 4"
    using rnd_grid[of 1 24 "- 126" "- 2"] by (simp add: rnd32_def power_int_minus)
  show ?thesis
    by (simp add: subPixelPeak_def Let_def rnd32_numeral a b)
qed

lemma detect_centre:
  "detect centre_peak =
     Inr (\<lparr>pt_x = 1 / 8, pt_y = 1 / 4\<rparr>, 9, [(1, 0), (1, 2), (0, 1), (2, 1)])"
  unfolding detect_def minMaxLoc_centre
  by (simp add: centre_peak_def signed_divide_int_def peak_neighbours_def mat_at_def
      peak_4_9_6 peak_3_9_7)

text \<open>
  Claim C10. On a response with at least one row and one column, \<^verbatim>\<open>detect\<close> returns, and
  every position it reads lies inside the response. On each axis the sub-pixel
  correction is added exactly when the arg-max index is strictly interior
  (\<open>0 < index < size - 1\<close>); when it is on the border, neither neighbour on that axis
  is read, and the returned offset on that axis is the integer peak coordinate minus
  half the size of the response (the integer half, \<^verbatim>\<open>(res.cols) / 2\<close>).
\<close>

theorem detect_sub_pixel:
  assumes "0 < mrows res" "0 < mcols res" "length (mdata res) = mrows res * mcols res"
    and "minMaxLoc res = (pv, pix, piy)"
  shows "\<exists>p reads. detect res = Inr (p, pv, reads)
      \<and> (\<forall>q \<in> set reads. in_range res q)
      \<and> (if 0 < pix \<and> pix < int (mcols res) - 1
          then pt_x p = real_of_int pix
                 + subPixelPeak (mdata res ! (nat piy * mcols res + nat (pix - 1))) pv
                                (mdata res ! (nat piy * mcols res + nat (pix + 1)))
                 - real_of_int (int (mcols res) div 2)
          else (piy, pix - 1) \<notin> set reads \<and> (piy, pix + 1) \<notin> set reads
               \<and> pt_x p = real_of_int pix - real_of_int (int (mcols res) div 2))
      \<and> (if 0 < piy \<and> piy < int (mrows res) - 1
          then pt_y p = real_of_int piy
                 + subPixelPeak (mdata res ! (nat (piy - 1) * mcols res + nat pix)) pv
                                (mdata res ! (nat (piy + 1) * mcols res + nat pix))
                 - real_of_int (int (mrows res) div 2)
          else (piy - 1, pix) \<notin> set reads \<and> (piy + 1, pix) \<notin> set reads
               \<and> pt_y p = real_of_int piy - real_of_int (int (mrows res) div 2))"
proof -
  note r = minMaxLoc_in_range[OF assms]
  have sd: "int n sdiv 2 = int n div 2" for n
    by (simp add: signed_divide_int_def sgn_if)
  show ?thesis
  proof (cases "0 < pix \<and> pix < int (mcols res) - 1")
    case x: True
    then have nx: "in_range res (piy, pix - 1)" "in_range res (piy, pix + 1)"
      using r by (simp_all add: in_range_def)
    from x have cx: "(0 < pix \<and> pix < int (mcols res) - 1) = True" by simp
    show ?thesis
    proof (cases "0 < piy \<and> piy < int (mrows res) - 1")
      case y: True
      then have ny: "in_range res (piy - 1, pix)" "in_range res (piy + 1, pix)"
        using r by (simp_all add: in_range_def)
      from y have cy: "(0 < piy \<and> piy < int (mrows res) - 1) = True" by simp
      show ?thesis
        unfolding detect_def assms(4) peak_neighbours_def
        using nx ny by (simp add: cx cy mat_at_in_range sd)
    next
      case y: False
      then have cy: "(0 < piy \<and> piy < int (mrows res) - 1) = False" by simp
      show ?thesis
        unfolding detect_def assms(4) peak_neighbours_def
        using nx by (simp add: cx cy mat_at_in_range sd)
    qed
  next
    case x: False
    then have cx: "(0 < pix \<and> pix < int (mcols res) - 1) = False" by simp
    show ?thesis
    proof (cases "0 < piy \<and> piy < int (mrows res) - 1")
      case y: True
      then have ny: "in_range res (piy - 1, pix)" "in_range res (piy + 1, pix)"
        using r by (simp_all add: in_range_def)
      from y have cy: "(0 < piy \<and> piy < int (mrows res) - 1) = True" by simp
      show ?thesis
        unfolding detect_def assms(4) peak_neighbours_def
        using ny by (simp add: cx cy mat_at_in_range sd)
    next
      case y: False
      then have cy: "(0 < piy \<and> piy < int (mrows res) - 1) = False" by simp
      show ?thesis
        unfolding detect_def assms(4) peak_neighbours_def
        by (simp add: cx cy sd)
    qed
  qed
qed

text \<open>
  The peak in the corner \<open>(0, 0)\<close> of a 3 by 3 response: nothing is read and the offset
  is \<open>(0 - 1, 0 - 1)\<close>. The peak in the middle: the four neighbours are read.
\<close>

theorem detect_sub_pixel_witness:
  "0 < mrows corner_peak \<and> 0 < mcols corner_peak
   \<and> length (mdata corner_peak) = mrows corner_peak * mcols corner_peak
   \<and> minMaxLoc corner_peak = (9, 0, 0)
   \<and> detect corner_peak = Inr (\<lparr>pt_x = - 1, pt_y = - 1\<rparr>, 9, [])
   \<and> minMaxLoc centre_peak = (9, 1, 1)
   \<and> detect centre_peak =
       Inr (\<lparr>pt_x = 1 / 8, pt_y = 1 / 4\<rparr>, 9, [(1, 0), (1, 2), (0, 1), (2, 1)])"
proof -
  have a: "0 < mrows corner_peak" "0 < mcols corner_peak"
    "length (mdata corner_peak) = mrows corner_peak * mcols corner_peak"
    by (simp_all add: corner_peak_def)
  from detect_sub_pixel[OF a minMaxLoc_corner]
  have "\<exists>p reads. detect corner_peak = Inr (p, 9, reads)" by blast
  then show ?thesis
    using a minMaxLoc_corner minMaxLoc_centre detect_corner detect_centre by simp
qed

subsection \<open>Scale samples\<close>





lemma set_col_dims [simp]:
  "mrows (set_col m j v) = mrows m" "mcols (set_col m j v) = mcols m"
  "length (mdata (set_col m j v)) = mrows m * mcols m"
  by (simp_all add: set_col_def)

lemma mat_zeros_dims [simp]:
  "mrows (mat_zeros L n) = L" "mcols (mat_zeros L n) = n"
  "length (mdata (mat_zeros L n)) = L * n"
  by (simp_all add: mat_zeros_def)














subsection \<open>Gaussian correlation\<close>

lemma mat_add_dims [simp]:
  "mrows (mat_add a b) = mrows a" "mcols (mat_add a b) = mcols a"
  "length (mdata (mat_add a b)) = min (length (mdata a)) (length (mdata b))"
  by (simp_all add: mat_add_def)



lemma cross_correlation_dims [simp]:
  "mrows (cross_correlation a b) = mrows a" "mcols (cross_correlation a b) = mcols a"
  "length (mdata (cross_correlation a b)) = mrows a * mcols a"
  by (simp_all add: cross_correlation_def)

lemma rearrange_dims [simp]:
  "mrows (rearrange m) = mrows m" "mcols (rearrange m) = mcols m"
  "length (mdata (rearrange m)) = mrows m * mcols m"
  by (simp_all add: rearrange_def)

lemma spectral_correlation_dims [simp]:
  "mrows (spectral_correlation a b) = mrows a" "mcols (spectral_correlation a b) = mcols a"
  "length (mdata (spectral_correlation a b)) = mrows a * mcols a"
  by (simp_all add: spectral_correlation_def)



lemma gaussianCorrelation_length:
  "length (mdata (gaussianCorrelation corr t x1 x2))
     = length (mdata (correlation_sum corr t x1 x2))"
  by (simp add: gaussianCorrelation_def Let_def)

text \<open>An exponential below \<open>2 ^ - 150\<close> is stored as 0.\<close>

lemma exp_underflow: "rnd32 (exp (- 10000)) = 0"
proof -
  have "(2 :: real) \<le> exp 1" using exp_ge_add_one_self[of 1] by simp
  then have "(2 :: real) ^ 10000 \<le> exp 1 ^ 10000" by (intro power_mono) simp_all
  also have "\<dots> = exp (real 10000 * 1)" by (simp only: exp_of_nat_mult)
  finally have "(2 :: real) ^ 10000 \<le> exp 10000" by simp
  moreover have "(2 :: real) ^ 150 < 2 ^ 10000" by (intro power_strict_increasing) simp_all
  ultimately have "(2 :: real) ^ 150 < exp 10000" by linarith
  then have "1 / exp 10000 < 1 / (2 :: real) ^ 150"
    by (intro divide_strict_left_mono) simp_all
  then have "exp (- 10000) < (2 :: real) powi (- 126 - int 24)"
    by (simp add: exp_minus power_int_minus inverse_eq_divide)
  then show ?thesis
    unfolding rnd32_def by (intro rnd_underflow) simp_all
qed

lemma far_maps_correlation:
  "mdata (correlation_sum spectral_correlation gray_1x1 bright_map dark_map) = [- 100]"
  by (simp add: correlation_sum_def gray_1x1_def KCFTracker_def Let_def
      spectral_correlation_def rearrange_def cross_correlation_def el_def bright_map_def
      dark_map_def)

lemma far_maps_fields:
  "sigma gray_1x1 = 1 / 5"
  "size_patch0 gray_1x1 * size_patch1 gray_1x1 * size_patch2 gray_1x1 = 1"
  "sum_sq bright_map = 100" "sum_sq dark_map = 100"
  by (simp_all add: gray_1x1_def KCFTracker_def Let_def sum_sq_def bright_map_def dark_map_def)

text \<open>
  Claim C9, as stated, has every element of the response in \<open>(0, 1]\<close>. The kernel is a
  matrix of floats. For the gray feature maps of one pixel with the values 10 and -10
  and the bandwidth 0.2, the distance is 400 and the exponential \<open>exp (- 10000)\<close> is
  stored as 0.
\<close>

theorem gaussianCorrelation_range_counterexample:
  "valid_features gray_1x1 bright_map \<and> valid_features gray_1x1 dark_map
   \<and> sigma gray_1x1 = 1 / 5
   \<and> finite_distances spectral_correlation gray_1x1 bright_map dark_map
   \<and> gaussianCorrelation spectral_correlation gray_1x1 bright_map dark_map
       = \<lparr>mrows = 1, mcols = 1, mdata = [0]\<rparr>"
proof -
  have v: "valid_features gray_1x1 bright_map" "valid_features gray_1x1 dark_map"
    by (simp_all add: valid_features_def gray_1x1_def KCFTracker_def Let_def bright_map_def
        dark_map_def)
  have f: "finite_distances spectral_correlation gray_1x1 bright_map dark_map"
    by (simp add: finite_distances_def far_maps_correlation far_maps_fields finite32_def)
  have d: "mrows (correlation_sum spectral_correlation gray_1x1 bright_map dark_map) = 1"
    "mcols (correlation_sum spectral_correlation gray_1x1 bright_map dark_map) = 1"
    by (simp_all add: correlation_sum_def gray_1x1_def KCFTracker_def Let_def bright_map_def)
  have "gaussianCorrelation spectral_correlation gray_1x1 bright_map dark_map
      = \<lparr>mrows = 1, mcols = 1, mdata = [rnd32 (exp (- 10000))]\<rparr>"
    using d
    by (simp add: gaussianCorrelation_def Let_def far_maps_correlation far_maps_fields)
  then show ?thesis using v f by (simp add: exp_underflow far_maps_fields)
qed

text \<open>
  Claim C9, amended. When no step before the exponential overflows, every element of
  the response of \<^verbatim>\<open>gaussianCorrelation(x1, x2)\<close> lies in the closed interval \<open>[0, 1]\<close>,
  whatever the feature maps and whatever the spectral code returns: the distance is cut
  off at 0 before the exponential, and the exponential is rounded to a float. (The
  bandwidth is not 0 and the feature map is not empty: otherwise the program divides by
  zero.)
\<close>

theorem gaussianCorrelation_range:
  assumes "sigma t \<noteq> 0" "0 < size_patch0 t * size_patch1 t * size_patch2 t"
    and "finite_distances corr t x1 x2"
  shows "\<forall>v \<in> set (mdata (gaussianCorrelation corr t x1 x2)). 0 \<le> v \<and> v \<le> 1"
proof -
  have "0 \<le> rnd32 (exp (- max a 0 / (sigma t * sigma t)))
      \<and> rnd32 (exp (- max a 0 / (sigma t * sigma t))) \<le> 1"
    for a :: real
  proof -
    have "0 \<le> max a 0 / (sigma t * sigma t)" by simp
    then have "exp (- max a 0 / (sigma t * sigma t)) \<le> 1" by simp
    then show ?thesis
      unfolding rnd32_def by (intro rnd_unit_interval) simp_all
  qed
  then show ?thesis
    by (auto simp add: gaussianCorrelation_def Let_def)
qed

text \<open>
  The gray tracker of one pixel and the feature map with the value 10, against itself:
  the distance is 0 and the response is 1.
\<close>

lemma near_maps_correlation:
  "mdata (correlation_sum spectral_correlation gray_1x1 bright_map bright_map) = [100]"
  by (simp add: correlation_sum_def gray_1x1_def KCFTracker_def Let_def
      spectral_correlation_def rearrange_def cross_correlation_def el_def bright_map_def)

theorem gaussianCorrelation_range_witness:
  "sigma gray_1x1 \<noteq> 0
   \<and> 0 < size_patch0 gray_1x1 * size_patch1 gray_1x1 * size_patch2 gray_1x1
   \<and> finite_distances spectral_correlation gray_1x1 bright_map bright_map
   \<and> mdata (gaussianCorrelation spectral_correlation gray_1x1 bright_map bright_map) = [1]
   \<and> 0 \<le> mdata (gaussianCorrelation spectral_correlation gray_1x1 bright_map bright_map) ! 0
   \<and> mdata (gaussianCorrelation spectral_correlation gray_1x1 bright_map bright_map) ! 0 \<le> 1"
proof -
  have s: "sigma gray_1x1 \<noteq> 0" by (simp add: far_maps_fields)
  have n: "0 < size_patch0 gray_1x1 * size_patch1 gray_1x1 * size_patch2 gray_1x1"
    by (simp add: far_maps_fields)
  have f: "finite_distances spectral_correlation gray_1x1 bright_map bright_map"
    by (simp add: finite_distances_def near_maps_correlation far_maps_fields finite32_def)
  have k: "mdata (gaussianCorrelation spectral_correlation gray_1x1 bright_map bright_map) = [1]"
    by (simp add: gaussianCorrelation_def Let_def near_maps_correlation far_maps_fields)
  then have m: "mdata (gaussianCorrelation spectral_correlation gray_1x1 bright_map bright_map) ! 0
       \<in> set (mdata (gaussianCorrelation spectral_correlation gray_1x1 bright_map bright_map))"
    by simp
  from gaussianCorrelation_range[OF s n f] m
  have "0 \<le> mdata (gaussianCorrelation spectral_correlation gray_1x1 bright_map bright_map) ! 0
      \<and> mdata (gaussianCorrelation spectral_correlation gray_1x1 bright_map bright_map) ! 0 \<le> 1"
    by blast
  then show ?thesis using s n f k by blast
qed

subsection \<open>Self-correlation at zero shift\<close>














end
